theory Spec2Isabelle
  imports Complex_Main "HOL-Library.Char_ord" "HOL-Library.List_Lexorder"
begin

section \<open>API REST de gestion de notes: serveur.js and modeleNote.js\<close>

text \<open>
  The program is an Express application over one Mongoose model. The embedding follows
  \<^verbatim>\<open>src/serveur.js\<close>: the JSON parser of line 41, the upload storage of lines 27 to
  35 and everything from line 60 on (the routes, the error middleware, the unknown-route
  middleware and the route declared after \<^verbatim>\<open>app.listen\<close>), and
  \<^verbatim>\<open>src/modeleNote.js\<close>. Four middlewares are left out: helmet, cors and the logger
  pass every request with one of the four methods below on, and the static files answer
  only requests under \<^verbatim>\<open>/uploads\<close>, which no property here concerns.

  Strings are lists of characters; one character stands for one UTF-16 code unit, which
  is what a JavaScript string length counts. JavaScript numbers are modelled as integers,
  exact up to \<open>2 ^ 53\<close>. The database is taken as connected: the only database errors in
  the model are the ones the requests themselves can cause.
\<close>

subsection \<open>Data\<close>

text \<open>An ObjectId is identified with the number its 24 hexadecimal digits write.\<close>

type_synonym objectId = nat

text \<open>
  \<^verbatim>\<open>noteSchema\<close> (modeleNote.js, lines 3 to 7), together with the \<^verbatim>\<open>_id\<close> every
  Mongoose document carries (here \<open>oid\<close>). The version key \<^verbatim>\<open>__v\<close> is left out: no
  request of this program changes it.
\<close>

record Note =
  oid :: objectId
  titre :: string
  contenu :: string
  dateAjout :: nat

text \<open>A parsed JSON value, as \<^verbatim>\<open>express.json()\<close> leaves it in \<^verbatim>\<open>req.body\<close>.\<close>

datatype json =
  JNull
  | JBool bool
  | JNum int
  | JStr string
  | JArr "json list"
  | JObj "(string \<times> json) list"

text \<open>
  The first detail of a Joi validation error. Joi renders it as a sentence
  (\<^verbatim>\<open>"titre" is required\<close> and so on); the model keeps the constraint and the key.
\<close>

datatype joi_error =
  ObjectBase
  | AnyRequired string
  | StringBase string
  | StringEmpty string
  | StringMin string nat
  | StringMax string nat
  | ObjectUnknown string

text \<open>
  What a Mongoose call can throw in this program, the two errors of the JSON parser
  (a body over the limit, a body that is not the JSON it accepts; a third one for a
  charset or an encoding it does not read), and the errors of multer: a file under a
  field it does not expect, a form it cannot read, and the missing directory that the
  storage writes into.
\<close>

datatype error =
  CastError string
  | DuplicateKey objectId
  | EntityTooLarge
  | EntityParseFailed
  | UnsupportedMediaType
  | UnexpectedField string
  | MalformedForm
  | NoSuchDirectory

text \<open>The fixed texts of the responses.\<close>

datatype message =
  AucunFichierEnvoye
  | FichierUploadeAvecSucces
  | NoteNonTrouvee
  | NoteModifieeAvecSucces
  | NoteSupprimeeAvecSucces
  | ErreurServeur
  | RouteInconnue
  | ErreurRecuperationNotes

text \<open>The JSON bodies the program sends, one constructor for each shape.\<close>

datatype payload =
  Erreur message
  | ErreurValidation joi_error
  | ErreurDetails message error
  | ErrorKey message
  | MessageUrl message string
  | NoteDoc Note
  | NoteList "Note list"
  | MessageOnly message
  | MessageNote message Note
  | Page int int nat "Note list"
  | FinalHandler

record response =
  status :: nat
  payload :: payload

datatype http_method = GET | POST | PUT | DELETE

text \<open>A file of a multipart form: the name of its field and the name of the file.\<close>

record file_part =
  fieldname :: string
  originalname :: string

text \<open>
  What a request carries, as the parsers of the program tell it apart:
  \<^item> \<open>NoContent\<close>: no body, an empty one, or one that is neither declared JSON nor a
    multipart form;
  \<^item> \<open>JsonText v x\<close>: a body declared JSON whose text is the JSON value \<open>v\<close>, in
    \<open>x\<close> bytes more than \<open>jsonBytes v\<close> below;
  \<^item> \<open>BadJson n\<close>: a body declared JSON, of \<open>n\<close> bytes, whose text is no JSON value;
  \<^item> \<open>Unsupported\<close>: a body declared JSON in a charset or an encoding the parser does
    not read;
  \<^item> \<open>Multipart fs\<close>: a multipart form with the files \<open>fs\<close>, in their order;
  \<^item> \<open>BadForm\<close>: a body declared a multipart form that is none.
\<close>

datatype content =
  NoContent
  | JsonText json nat
  | BadJson nat
  | Unsupported
  | Multipart "file_part list"
  | BadForm

text \<open>
  A request: \<^verbatim>\<open>req.method\<close> (here \<open>http_method\<close>), the segments of
  \<^verbatim>\<open>req.path\<close>, \<^verbatim>\<open>req.query\<close>, what it carries, \<^verbatim>\<open>req.body\<close>,
  \<^verbatim>\<open>req.protocol\<close> and \<^verbatim>\<open>req.get('host')\<close>. The routes read \<^verbatim>\<open>req.body\<close>; the
  JSON parser sets it from what the request carries.
\<close>

record request =
  http_method :: http_method
  path :: "string list"
  query :: "(string \<times> string) list"
  content :: content
  body :: json
  protocol :: string
  host :: "string option"

text \<open>
  What a request takes from its environment: \<^verbatim>\<open>Date.now()\<close>, the ObjectId that
  \<^verbatim>\<open>new Note\<close> generates, and whether the directory \<^verbatim>\<open>uploads/\<close> is there (the
  program never creates it).
\<close>

record env =
  now :: nat
  newId :: objectId
  uploadsDir :: bool

text \<open>The collection of notes in its natural order, and the files of \<^verbatim>\<open>uploads/\<close>.\<close>

record state =
  collection :: "Note list"
  uploads :: "string list"

subsection \<open>express.json() (serveur.js, line 41)\<close>

text \<open>
  The bytes a text of a JSON value takes at least: a string has a byte or more for each
  character and two quotes, a number has a digit, an array or an object has its
  brackets, its commas and its colons.
\<close>

fun jsonBytes :: "json \<Rightarrow> nat" where
  "jsonBytes JNull = 4"
| "jsonBytes (JBool b) = (if b then 4 else 5)"
| "jsonBytes (JNum n) = 1"
| "jsonBytes (JStr s) = length s + 2"
| "jsonBytes (JArr vs) = 2 + sum_list (map jsonBytes vs) + (length vs - 1)"
| "jsonBytes (JObj kvs) =
     2 + sum_list (map (\<lambda>kv. length (fst kv) + 3 + jsonBytes (snd kv)) kvs) + (length kvs - 1)"

text \<open>The default limit of the parser, \<^verbatim>\<open>100kb\<close>.\<close>

definition bodyLimit :: nat where
  "bodyLimit = 102400"

text \<open>The parser is strict by default: it accepts an object or an array only.\<close>

fun objectOrArray :: "json \<Rightarrow> bool" where
  "objectOrArray (JObj kvs) = True"
| "objectOrArray (JArr vs) = True"
| "objectOrArray v = False"

text \<open>
  \<^verbatim>\<open>express.json()\<close> on a request: the error it passes to \<^verbatim>\<open>next\<close>, or the
  request it hands on. It checks the length before it reads the text. For a body it does
  not read, \<^verbatim>\<open>req.body\<close> stays what the request has there: the empty object with
  the parser of Express 4 (the parser of Express 5 leaves it undefined, which is outside
  the model). No property below depends on it.
\<close>

definition express_json :: "request \<Rightarrow> error + request" where
  "express_json rq =
     (case content rq of
        JsonText v x \<Rightarrow>
          if bodyLimit < jsonBytes v + x then Inl EntityTooLarge
          else if objectOrArray v then Inr (rq\<lparr>body := v\<rparr>)
          else Inl EntityParseFailed
      | BadJson n \<Rightarrow> if bodyLimit < n then Inl EntityTooLarge else Inl EntityParseFailed
      | Unsupported \<Rightarrow> Inl UnsupportedMediaType
      | _ \<Rightarrow> Inr rq)"

subsection \<open>noteSchemaJoi (serveur.js, lines 4 to 7)\<close>

text \<open>\<^verbatim>\<open>Joi.string().min(lo).max(hi).required()\<close> on the value of one key.\<close>

fun joi_string :: "string \<Rightarrow> nat \<Rightarrow> nat \<Rightarrow> json option \<Rightarrow> joi_error option" where
  "joi_string k lo hi None = Some (AnyRequired k)"
| "joi_string k lo hi (Some (JStr s)) =
     (if s = [] then Some (StringEmpty k)
      else if length s < lo then Some (StringMin k lo)
      else if hi < length s then Some (StringMax k hi)
      else None)"
| "joi_string k lo hi (Some v) = Some (StringBase k)"

text \<open>
  \<^verbatim>\<open>noteSchemaJoi.validate(req.body)\<close>: the keys of the schema in their order, then the
  keys the schema does not know; the first error ends the validation.
\<close>

definition noteSchemaJoi :: "json \<Rightarrow> joi_error option" where
  "noteSchemaJoi b =
     (case b of
        JObj kvs \<Rightarrow>
          (case joi_string ''titre'' 2 100 (map_of kvs ''titre'') of
             Some e \<Rightarrow> Some e
           | None \<Rightarrow>
               (case joi_string ''contenu'' 2 1000 (map_of kvs ''contenu'') of
                  Some e \<Rightarrow> Some e
                | None \<Rightarrow>
                    (case filter (\<lambda>k. k \<noteq> ''titre'' \<and> k \<noteq> ''contenu'') (map fst kvs) of
                       [] \<Rightarrow> None
                     | k # ks \<Rightarrow> Some (ObjectUnknown k))))
      | _ \<Rightarrow> Some ObjectBase)"

text \<open>The destructuring \<^verbatim>\<open>const { titre, contenu } = req.body\<close> after a valid body.\<close>

definition field_string :: "json \<Rightarrow> string \<Rightarrow> string" where
  "field_string b k =
     (case b of
        JObj kvs \<Rightarrow> (case map_of kvs k of Some (JStr s) \<Rightarrow> s | _ \<Rightarrow> [])
      | _ \<Rightarrow> [])"

subsection \<open>The Mongoose model Note\<close>

definition hexDigit :: "char \<Rightarrow> nat option" where
  "hexDigit c =
     (let n = (of_char c :: nat) in
      if 48 \<le> n \<and> n \<le> 57 then Some (n - 48)
      else if 97 \<le> n \<and> n \<le> 102 then Some (n - 87)
      else if 65 \<le> n \<and> n \<le> 70 then Some (n - 55)
      else None)"

fun hexValue :: "nat \<Rightarrow> string \<Rightarrow> nat option" where
  "hexValue acc [] = Some acc"
| "hexValue acc (c # cs) =
     (case hexDigit c of None \<Rightarrow> None | Some d \<Rightarrow> hexValue (acc * 16 + d) cs)"

text \<open>
  Mongoose casts the \<^verbatim>\<open>:id\<close> of the path to an ObjectId and throws a CastError when
  the string is not one: the model takes the 24 hexadecimal digits of an ObjectId as the
  well-formed strings.
\<close>

definition castObjectId :: "string \<Rightarrow> objectId option" where
  "castObjectId s = (if length s = 24 then hexValue 0 s else None)"

definition Note_find :: "state \<Rightarrow> Note list" where
  "Note_find st = collection st"

definition Note_countDocuments :: "state \<Rightarrow> nat" where
  "Note_countDocuments st = length (collection st)"

definition Note_findById :: "state \<Rightarrow> string \<Rightarrow> error + Note option" where
  "Note_findById st i =
     (case castObjectId i of
        None \<Rightarrow> Inl (CastError i)
      | Some k \<Rightarrow> Inr (find (\<lambda>n. oid n = k) (collection st)))"

text \<open>
  \<^verbatim>\<open>new Note({ titre, contenu })\<close> followed by \<^verbatim>\<open>note.save()\<close>: the document gets
  the generated \<^verbatim>\<open>_id\<close> and the default \<^verbatim>\<open>dateAjout\<close>; the collection refuses an
  \<^verbatim>\<open>_id\<close> it already holds.
\<close>

definition Note_save :: "env \<Rightarrow> state \<Rightarrow> string \<Rightarrow> string \<Rightarrow> error + (Note \<times> state)" where
  "Note_save e st t c =
     (let n = \<lparr>oid = newId e, titre = t, contenu = c, dateAjout = now e\<rparr> in
      if newId e \<in> set (map oid (collection st)) then Inl (DuplicateKey (newId e))
      else Inr (n, st\<lparr>collection := collection st @ [n]\<rparr>))"

text \<open>The update \<^verbatim>\<open>{ titre, contenu }\<close> on the first document with the given \<^verbatim>\<open>_id\<close>.\<close>

fun updateOne :: "objectId \<Rightarrow> string \<Rightarrow> string \<Rightarrow> Note list \<Rightarrow> Note list" where
  "updateOne k t c [] = []"
| "updateOne k t c (n # ns) =
     (if oid n = k then n\<lparr>titre := t, contenu := c\<rparr> # ns else n # updateOne k t c ns)"

fun deleteOne :: "objectId \<Rightarrow> Note list \<Rightarrow> Note list" where
  "deleteOne k [] = []"
| "deleteOne k (n # ns) = (if oid n = k then ns else n # deleteOne k ns)"

text \<open>
  \<^verbatim>\<open>Note.findByIdAndUpdate(id, { titre, contenu }, { new: true, runValidators: true })\<close>:
  the result is the document after the update.
\<close>

definition Note_findByIdAndUpdate ::
  "state \<Rightarrow> string \<Rightarrow> string \<Rightarrow> string \<Rightarrow> error + (Note option \<times> state)" where
  "Note_findByIdAndUpdate st i t c =
     (case castObjectId i of
        None \<Rightarrow> Inl (CastError i)
      | Some k \<Rightarrow>
          (case find (\<lambda>n. oid n = k) (collection st) of
             None \<Rightarrow> Inr (None, st)
           | Some n \<Rightarrow>
               Inr (Some (n\<lparr>titre := t, contenu := c\<rparr>),
                    st\<lparr>collection := updateOne k t c (collection st)\<rparr>)))"

definition Note_findByIdAndDelete :: "state \<Rightarrow> string \<Rightarrow> error + (Note option \<times> state)" where
  "Note_findByIdAndDelete st i =
     (case castObjectId i of
        None \<Rightarrow> Inl (CastError i)
      | Some k \<Rightarrow>
          (case find (\<lambda>n. oid n = k) (collection st) of
             None \<Rightarrow> Inr (None, st)
           | Some n \<Rightarrow> Inr (Some n, st\<lparr>collection := deleteOne k (collection st)\<rparr>)))"

subsection \<open>Queries of the paginated listing\<close>

definition isWhiteSpace :: "char \<Rightarrow> bool" where
  "isWhiteSpace c = (let n = (of_char c :: nat) in n = 32 \<or> (9 \<le> n \<and> n \<le> 13))"

definition decDigit :: "char \<Rightarrow> nat option" where
  "decDigit c = (let n = (of_char c :: nat) in if 48 \<le> n \<and> n \<le> 57 then Some (n - 48) else None)"

text \<open>The digits of a numeral in the given radix, up to the first character that is not one.\<close>

fun digitsValue :: "(char \<Rightarrow> nat option) \<Rightarrow> nat \<Rightarrow> nat \<Rightarrow> string \<Rightarrow> nat" where
  "digitsValue d r acc [] = acc"
| "digitsValue d r acc (c # cs) =
     (case d c of None \<Rightarrow> acc | Some v \<Rightarrow> digitsValue d r (acc * r + v) cs)"

definition parseMagnitude :: "string \<Rightarrow> nat option" where
  "parseMagnitude s =
     (if take 2 s = ''0x'' \<or> take 2 s = ''0X'' then
        (case drop 2 s of
           [] \<Rightarrow> None
         | c # cs \<Rightarrow> if hexDigit c = None then None else Some (digitsValue hexDigit 16 0 (c # cs)))
      else
        (case s of
           [] \<Rightarrow> None
         | c # cs \<Rightarrow> if decDigit c = None then None else Some (digitsValue decDigit 10 0 s)))"

text \<open>
  JavaScript's \<^verbatim>\<open>parseInt\<close> with one argument, on a query parameter that may be
  absent: leading white space, a sign, a hexadecimal prefix, then digits. \<open>None\<close> is NaN.
\<close>

definition parseInt :: "string option \<Rightarrow> int option" where
  "parseInt a =
     (case a of
        None \<Rightarrow> None
      | Some s \<Rightarrow>
          (case dropWhile isWhiteSpace s of
             [] \<Rightarrow> None
           | c # u \<Rightarrow>
               if c = CHR ''-'' then map_option (\<lambda>m. - int m) (parseMagnitude u)
               else if c = CHR ''+'' then map_option int (parseMagnitude u)
               else map_option int (parseMagnitude (c # u))))"

text \<open>\<^verbatim>\<open>parseInt(x) || d\<close>: NaN and zero are falsy.\<close>

definition orDefault :: "int option \<Rightarrow> int \<Rightarrow> int" where
  "orDefault v d = (case v of None \<Rightarrow> d | Some n \<Rightarrow> if n = 0 then d else n)"

text \<open>The paths of \<^verbatim>\<open>noteSchema\<close> and the \<^verbatim>\<open>_id\<close>: the fields a document has.\<close>

definition schemaPaths :: "string list" where
  "schemaPaths = [''_id'', ''titre'', ''contenu'', ''dateAjout'']"

text \<open>
  \<^verbatim>\<open>.sort({ [sortBy]: sortOrder })\<close> on one field: ascending for 1, descending
  otherwise, documents with equal keys in their natural order.
\<close>

definition sortDocs :: "int \<Rightarrow> (Note \<Rightarrow> 'k::linorder) \<Rightarrow> Note list \<Rightarrow> Note list" where
  "sortDocs sortOrder f ns =
     (if sortOrder = 1 then sort_key f ns else rev (sort_key f (rev ns)))"

text \<open>
  A field no document has is null in every document, so all the keys are equal
  (the constant key \<open>0\<close> below).
\<close>

definition Query_sort :: "string \<Rightarrow> int \<Rightarrow> Note list \<Rightarrow> Note list" where
  "Query_sort sortBy sortOrder ns =
     (if sortBy = ''_id'' then sortDocs sortOrder oid ns
      else if sortBy = ''titre'' then sortDocs sortOrder titre ns
      else if sortBy = ''contenu'' then sortDocs sortOrder contenu ns
      else if sortBy = ''dateAjout'' then sortDocs sortOrder dateAjout ns
      else sortDocs sortOrder (\<lambda>n. 0 :: nat) ns)"

subsection \<open>The upload storage (serveur.js, lines 27 to 35)\<close>

text \<open>The decimal text of a number, as \<^verbatim>\<open>Date.now() + '-'\<close> writes it.\<close>

definition digitChar :: "nat \<Rightarrow> char" where
  "digitChar d = ''0123456789'' ! d"

fun numberToString :: "nat \<Rightarrow> string" where
  "numberToString n =
     (if n < 10 then [digitChar n]
      else numberToString (n div 10) @ [digitChar (n mod 10)])"

definition storage_destination :: string where
  "storage_destination = ''uploads/''"

definition storage_filename :: "env \<Rightarrow> file_part \<Rightarrow> string" where
  "storage_filename e f = numberToString (now e) @ ''-'' @ originalname f"

text \<open>
  The files multer sees in a request: the files of a multipart form that have a name
  (it skips a part without one), and none in any other request.
\<close>

definition formFiles :: "content \<Rightarrow> file_part list" where
  "formFiles c =
     (case c of Multipart fs \<Rightarrow> filter (\<lambda>f. originalname f \<noteq> []) fs | _ \<Rightarrow> [])"

text \<open>
  \<^verbatim>\<open>upload.single('fichier')\<close> on the files in their order, with the number of files
  the field \<^verbatim>\<open>fichier\<close> may still take and the name of the file stored so far: a file
  under another field, or one more than the field takes, is refused before the storage
  is asked; the storage fails when its directory is missing. The result is the error
  that ended the walk, if any, and the name of the file stored.
\<close>

fun multer_files ::
  "env \<Rightarrow> nat \<Rightarrow> string option \<Rightarrow> file_part list \<Rightarrow> error option \<times> string option" where
  "multer_files e filesLeft stored [] = (None, stored)"
| "multer_files e filesLeft stored (f # fs) =
     (if fieldname f \<noteq> ''fichier'' \<or> filesLeft = 0 then
        (Some (UnexpectedField (fieldname f)), stored)
      else if \<not> uploadsDir e then (Some NoSuchDirectory, stored)
      else multer_files e (filesLeft - 1) (Some (storage_filename e f)) fs)"

text \<open>
  The middleware: \<^verbatim>\<open>req.file.filename\<close> when all went well (\<open>None\<close> when
  \<^verbatim>\<open>req.file\<close> is not set), with the file written into \<^verbatim>\<open>uploads/\<close> over any file of
  that name; after an error multer removes the file it has written.
\<close>

definition upload_single :: "env \<Rightarrow> state \<Rightarrow> content \<Rightarrow> (error + string option) \<times> state" where
  "upload_single e st c =
     (if c = BadForm then (Inl MalformedForm, st)
      else
        (case multer_files e 1 None (formFiles c) of
           (None, None) \<Rightarrow> (Inr None, st)
         | (None, Some filename) \<Rightarrow>
             (Inr (Some filename), st\<lparr>uploads := List.insert filename (uploads st)\<rparr>)
         | (Some err, None) \<Rightarrow> (Inl err, st)
         | (Some err, Some filename) \<Rightarrow>
             (Inl err, st\<lparr>uploads := removeAll filename (uploads st)\<rparr>)))"

subsection \<open>The handlers\<close>

text \<open>A handler answers, or passes an error on with \<^verbatim>\<open>next(err)\<close>.\<close>

datatype outcome = Responded response | NextErr error

text \<open>\<^verbatim>\<open>app.post('/upload', upload.single('fichier'), ...)\<close>, lines 60 to 67.\<close>

definition post_upload :: "env \<Rightarrow> state \<Rightarrow> request \<Rightarrow> outcome \<times> state" where
  "post_upload e st rq =
     (case upload_single e st (content rq) of
        (Inl err, st') \<Rightarrow> (NextErr err, st')
      | (Inr None, st') \<Rightarrow>
          (Responded \<lparr>status = 400, payload = Erreur AucunFichierEnvoye\<rparr>, st')
      | (Inr (Some filename), st') \<Rightarrow>
          (let fileUrl = protocol rq @ ''://''
                 @ (case host rq of None \<Rightarrow> ''undefined'' | Some h \<Rightarrow> h)
                 @ ''/uploads/'' @ filename
           in (Responded \<lparr>status = 201, payload = MessageUrl FichierUploadeAvecSucces fileUrl\<rparr>,
               st')))"

text \<open>\<^verbatim>\<open>app.post('/notes', ...)\<close>, lines 70 to 83.\<close>

definition post_notes :: "env \<Rightarrow> state \<Rightarrow> request \<Rightarrow> outcome \<times> state" where
  "post_notes e st rq =
     (case noteSchemaJoi (body rq) of
        Some err \<Rightarrow> (Responded \<lparr>status = 400, payload = ErreurValidation err\<rparr>, st)
      | None \<Rightarrow>
          (case Note_save e st (field_string (body rq) ''titre'')
                  (field_string (body rq) ''contenu'') of
             Inl err \<Rightarrow> (NextErr err, st)
           | Inr (n, st') \<Rightarrow> (Responded \<lparr>status = 201, payload = NoteDoc n\<rparr>, st')))"

text \<open>The first \<^verbatim>\<open>app.get('/notes', ...)\<close>, lines 86 to 93.\<close>

definition get_notes :: "state \<Rightarrow> outcome \<times> state" where
  "get_notes st = (Responded \<lparr>status = 200, payload = NoteList (Note_find st)\<rparr>, st)"

text \<open>\<^verbatim>\<open>app.get('/notes/:id', ...)\<close>, lines 96 to 106.\<close>

definition get_notes_id :: "state \<Rightarrow> string \<Rightarrow> outcome \<times> state" where
  "get_notes_id st i =
     (case Note_findById st i of
        Inl err \<Rightarrow> (NextErr err, st)
      | Inr None \<Rightarrow> (Responded \<lparr>status = 404, payload = Erreur NoteNonTrouvee\<rparr>, st)
      | Inr (Some n) \<Rightarrow> (Responded \<lparr>status = 200, payload = NoteDoc n\<rparr>, st))"

text \<open>\<^verbatim>\<open>app.put('/notes/:id', ...)\<close>, lines 109 to 128.\<close>

definition put_notes_id :: "state \<Rightarrow> request \<Rightarrow> string \<Rightarrow> outcome \<times> state" where
  "put_notes_id st rq i =
     (case noteSchemaJoi (body rq) of
        Some err \<Rightarrow> (Responded \<lparr>status = 400, payload = ErreurValidation err\<rparr>, st)
      | None \<Rightarrow>
          (case Note_findByIdAndUpdate st i (field_string (body rq) ''titre'')
                  (field_string (body rq) ''contenu'') of
             Inl err \<Rightarrow> (NextErr err, st)
           | Inr (None, st') \<Rightarrow>
               (Responded \<lparr>status = 404, payload = Erreur NoteNonTrouvee\<rparr>, st')
           | Inr (Some n, st') \<Rightarrow>
               (Responded \<lparr>status = 200, payload = MessageNote NoteModifieeAvecSucces n\<rparr>, st')))"

text \<open>\<^verbatim>\<open>app.delete('/notes/:id', ...)\<close>, lines 131 to 141.\<close>

definition delete_notes_id :: "state \<Rightarrow> string \<Rightarrow> outcome \<times> state" where
  "delete_notes_id st i =
     (case Note_findByIdAndDelete st i of
        Inl err \<Rightarrow> (NextErr err, st)
      | Inr (None, st') \<Rightarrow>
          (Responded \<lparr>status = 404, payload = Erreur NoteNonTrouvee\<rparr>, st')
      | Inr (Some n, st') \<Rightarrow>
          (Responded \<lparr>status = 200, payload = MessageOnly NoteSupprimeeAvecSucces\<rparr>, st'))"

text \<open>The error middleware, lines 144 to 147, and the unknown route, lines 150 to 152.\<close>

definition error_middleware :: "error \<Rightarrow> response" where
  "error_middleware err = \<lparr>status = 500, payload = ErreurDetails ErreurServeur err\<rparr>"

definition unknown_route :: response where
  "unknown_route = \<lparr>status = 404, payload = Erreur RouteInconnue\<rparr>"

text \<open>
  The second \<^verbatim>\<open>app.get('/notes', ...)\<close>, lines 159 to 183: first the five
  constants of lines 160 to 165.
\<close>

definition page :: "request \<Rightarrow> int" where
  "page rq = orDefault (parseInt (map_of (query rq) ''page'')) 1"

definition limit :: "request \<Rightarrow> int" where
  "limit rq = orDefault (parseInt (map_of (query rq) ''limit'')) 10"

definition sortBy :: "request \<Rightarrow> string" where
  "sortBy rq =
     (case map_of (query rq) ''sortBy'' of
        None \<Rightarrow> ''date''
      | Some s \<Rightarrow> if s = [] then ''date'' else s)"

definition sortOrder :: "request \<Rightarrow> int" where
  "sortOrder rq = (if map_of (query rq) ''order'' = Some ''asc'' then 1 else - 1)"

definition skip :: "request \<Rightarrow> int" where
  "skip rq = (page rq - 1) * limit rq"

text \<open>
  The database refuses a negative skip, which the handler's own \<^verbatim>\<open>catch\<close> answers;
  a negative limit is the limit of its absolute value.
\<close>

definition get_notes_paginated :: "state \<Rightarrow> request \<Rightarrow> outcome \<times> state" where
  "get_notes_paginated st rq =
     (if skip rq < 0 then
        (Responded \<lparr>status = 500, payload = ErrorKey ErreurRecuperationNotes\<rparr>, st)
      else
        (let totalNotes = Note_countDocuments st;
             found = take (nat \<bar>limit rq\<bar>)
                       (drop (nat (skip rq))
                          (Query_sort (sortBy rq) (sortOrder rq) (Note_find st)))
         in (Responded
               \<lparr>status = 200,
                payload =
                  Page (page rq) \<lceil>real totalNotes / real_of_int (limit rq)\<rceil> totalNotes found\<rparr>,
             st)))"

subsection \<open>The application: the layers in the order serveur.js declares them\<close>

datatype segment = Lit string | Param string

datatype handler =
  PostUpload
  | PostNotes
  | GetNotes
  | GetNotesId
  | PutNotesId
  | DeleteNotesId
  | GetNotesPaginated

datatype layer =
  JsonParser
  | Route http_method "segment list" handler
  | ErrorMiddleware
  | UnknownRoute

text \<open>The layers from line 60 on.\<close>

definition routes :: "layer list" where
  "routes =
     [Route POST [Lit ''upload''] PostUpload,
      Route POST [Lit ''notes''] PostNotes,
      Route GET [Lit ''notes''] GetNotes,
      Route GET [Lit ''notes'', Param ''id''] GetNotesId,
      Route PUT [Lit ''notes'', Param ''id''] PutNotesId,
      Route DELETE [Lit ''notes'', Param ''id''] DeleteNotesId,
      ErrorMiddleware,
      UnknownRoute,
      Route GET [Lit ''notes''] GetNotesPaginated]"

text \<open>The application: the JSON parser of line 41 before the routes.\<close>

definition app :: "layer list" where
  "app = JsonParser # routes"

text \<open>Express compares the fixed segments of a path without regard to case.\<close>

definition toLower :: "char \<Rightarrow> char" where
  "toLower c =
     (case map_of (zip ''ABCDEFGHIJKLMNOPQRSTUVWXYZ'' ''abcdefghijklmnopqrstuvwxyz'') c of
        Some l \<Rightarrow> l
      | None \<Rightarrow> c)"

text \<open>
  The path of a request is the list of its segments, the ones between the slashes. A
  parameter takes one segment that is not empty.
\<close>

fun matchPath :: "segment list \<Rightarrow> string list \<Rightarrow> (string \<times> string) list option" where
  "matchPath [] [] = Some []"
| "matchPath (Lit l # ps) (s # ss) = (if map toLower s = l then matchPath ps ss else None)"
| "matchPath (Param p # ps) (s # ss) =
     (if s = [] then None else map_option ((#) (p, s)) (matchPath ps ss))"
| "matchPath ps ss = None"

text \<open>
  The pattern of a route with \<^verbatim>\<open>:id\<close> binds \<^verbatim>\<open>req.params.id\<close>; without it
  \<^verbatim>\<open>findById(undefined)\<close> finds no document.
\<close>

definition withId ::
  "(string \<times> string) list \<Rightarrow> state \<Rightarrow> (string \<Rightarrow> outcome \<times> state) \<Rightarrow> outcome \<times> state" where
  "withId params st h =
     (case map_of params ''id'' of
        Some i \<Rightarrow> h i
      | None \<Rightarrow> (Responded \<lparr>status = 404, payload = Erreur NoteNonTrouvee\<rparr>, st))"

fun runHandler ::
  "handler \<Rightarrow> env \<Rightarrow> state \<Rightarrow> request \<Rightarrow> (string \<times> string) list \<Rightarrow> outcome \<times> state" where
  "runHandler PostUpload e st rq params = post_upload e st rq"
| "runHandler PostNotes e st rq params = post_notes e st rq"
| "runHandler GetNotes e st rq params = get_notes st"
| "runHandler GetNotesId e st rq params = withId params st (get_notes_id st)"
| "runHandler PutNotesId e st rq params = withId params st (put_notes_id st rq)"
| "runHandler DeleteNotesId e st rq params = withId params st (delete_notes_id st)"
| "runHandler GetNotesPaginated e st rq params = get_notes_paginated st rq"

text \<open>
  Express walks the layers in order. Without a pending error it runs the first route
  whose method and path match and skips the error middleware; after \<^verbatim>\<open>next(err)\<close> it
  skips every layer but an error middleware. At the end of the list its own final
  handler answers.
\<close>

fun dispatchFrom ::
  "layer list \<Rightarrow> error option \<Rightarrow> env \<Rightarrow> state \<Rightarrow> request \<Rightarrow> response \<times> state" where
  "dispatchFrom [] None e st rq = (\<lparr>status = 404, payload = FinalHandler\<rparr>, st)"
| "dispatchFrom [] (Some err) e st rq = (\<lparr>status = 500, payload = FinalHandler\<rparr>, st)"
| "dispatchFrom (JsonParser # ls) None e st rq =
     (case express_json rq of
        Inl err \<Rightarrow> dispatchFrom ls (Some err) e st rq
      | Inr rq' \<Rightarrow> dispatchFrom ls None e st rq')"
| "dispatchFrom (JsonParser # ls) (Some err) e st rq = dispatchFrom ls (Some err) e st rq"
| "dispatchFrom (Route m p h # ls) None e st rq =
     (if m = http_method rq then
        (case matchPath p (path rq) of
           None \<Rightarrow> dispatchFrom ls None e st rq
         | Some params \<Rightarrow>
             (case runHandler h e st rq params of
                (Responded r, st') \<Rightarrow> (r, st')
              | (NextErr err, st') \<Rightarrow> dispatchFrom ls (Some err) e st' rq))
      else dispatchFrom ls None e st rq)"
| "dispatchFrom (Route m p h # ls) (Some err) e st rq = dispatchFrom ls (Some err) e st rq"
| "dispatchFrom (ErrorMiddleware # ls) None e st rq = dispatchFrom ls None e st rq"
| "dispatchFrom (ErrorMiddleware # ls) (Some err) e st rq = (error_middleware err, st)"
| "dispatchFrom (UnknownRoute # ls) None e st rq = (unknown_route, st)"
| "dispatchFrom (UnknownRoute # ls) (Some err) e st rq = dispatchFrom ls (Some err) e st rq"

text \<open>The routes on a request that the JSON parser has handed on.\<close>

definition dispatch :: "env \<Rightarrow> state \<Rightarrow> request \<Rightarrow> response \<times> state" where
  "dispatch e st rq = dispatchFrom routes None e st rq"

text \<open>The application on a request as it comes in.\<close>

definition handle :: "env \<Rightarrow> state \<Rightarrow> request \<Rightarrow> response \<times> state" where
  "handle e st rq = dispatchFrom app None e st rq"

text \<open>A request for the route with the given method and pattern, and what the pattern binds.\<close>

definition isRoute ::
  "http_method \<Rightarrow> segment list \<Rightarrow> request \<Rightarrow> (string \<times> string) list \<Rightarrow> bool" where
  "isRoute m p rq params = (http_method rq = m \<and> matchPath p (path rq) = Some params)"

text \<open>Every document of the collection has its own \<^verbatim>\<open>_id\<close>.\<close>

definition uniqueIds :: "state \<Rightarrow> bool" where
  "uniqueIds st = distinct (map oid (collection st))"

subsection \<open>The conditions the properties speak of\<close>

text \<open>
  A field whose length is outside the bounds, or that is missing: the condition of the
  property on invalid payloads, in its words.
\<close>

fun lengthOutside :: "nat \<Rightarrow> nat \<Rightarrow> json option \<Rightarrow> bool" where
  "lengthOutside lo hi None = True"
| "lengthOutside lo hi (Some (JStr s)) = (length s < lo \<or> hi < length s)"
| "lengthOutside lo hi (Some v) = False"

text \<open>
  The decimal numeral of a number: digits only, no leading zero, and the value they
  write.
\<close>

definition isDecimalOf :: "string \<Rightarrow> nat \<Rightarrow> bool" where
  "isDecimalOf ds n =
     (ds \<noteq> []
      \<and> list_all (\<lambda>c. 48 \<le> (of_char c :: nat) \<and> (of_char c :: nat) \<le> 57) ds
      \<and> (1 < length ds \<longrightarrow> hd ds \<noteq> CHR ''0'')
      \<and> foldl (\<lambda>a c. 10 * a + ((of_char c :: nat) - 48)) 0 ds = n)"

text \<open>A body that consists of exactly the keys \<^verbatim>\<open>titre\<close> and \<^verbatim>\<open>contenu\<close>.\<close>

definition exactKeys :: "json \<Rightarrow> bool" where
  "exactKeys b =
     (case b of JObj kvs \<Rightarrow> set (map fst kvs) = {''titre'', ''contenu''} | _ \<Rightarrow> False)"

subsection \<open>Concrete requests and collections\<close>

definition noteMaths :: Note where
  "noteMaths = \<lparr>oid = 1, titre = ''Maths'', contenu = ''Calcul integral'', dateAjout = 20\<rparr>"

definition noteAlgo :: Note where
  "noteAlgo = \<lparr>oid = 2, titre = ''Algo'', contenu = ''Tri rapide'', dateAjout = 30\<rparr>"

definition noteChimie :: Note where
  "noteChimie = \<lparr>oid = 3, titre = ''Chimie'', contenu = ''Acides et bases'', dateAjout = 10\<rparr>"

definition threeNotes :: state where
  "threeNotes = \<lparr>collection = [noteMaths, noteAlgo, noteChimie], uploads = []\<rparr>"

definition someEnv :: env where
  "someEnv = \<lparr>now = 1700000000000, newId = 4, uploadsDir = True\<rparr>"

text \<open>A request that carries the shortest text of a JSON value.\<close>

definition req :: "http_method \<Rightarrow> string list \<Rightarrow> (string \<times> string) list \<Rightarrow> json \<Rightarrow> request" where
  "req m p q b =
     \<lparr>http_method = m, path = p, query = q, content = JsonText b 0, body = b,
      protocol = ''http'', host = Some ''localhost:3000''\<rparr>"

text \<open>A text of 200000 characters.\<close>

definition longText :: string where
  "longText = replicate 200000 (CHR ''a'')"

section \<open>Routing\<close>

text \<open>What the patterns of the routes match, and which handler answers each route.\<close>

lemma matchPath_Lit:
  "matchPath [Lit l] p = Some ps \<longleftrightarrow> (\<exists>s. p = [s] \<and> map toLower s = l \<and> ps = [])"
proof (cases p)
  case Nil
  then show ?thesis by simp
next
  case (Cons s ss)
  then show ?thesis by (cases ss) auto
qed

lemma matchPath_Lit_Param:
  "matchPath [Lit l, Param x] p = Some ps \<longleftrightarrow>
     (\<exists>s i. p = [s, i] \<and> map toLower s = l \<and> i \<noteq> [] \<and> ps = [(x, i)])"
proof (cases p)
  case Nil
  then show ?thesis by simp
next
  case (Cons s ss)
  show ?thesis
  proof (cases ss)
    case Nil
    with Cons show ?thesis by simp
  next
    case (Cons i rest)
    with \<open>p = s # ss\<close> show ?thesis by (cases rest) auto
  qed
qed

text \<open>
  The layers behind the error middleware and the unknown-route middleware never run: one
  of the two answers whatever reaches them.
\<close>

lemma dispatchFrom_behind_the_middlewares:
  "dispatchFrom (ls @ ErrorMiddleware # UnknownRoute # behind) err e st rq
     = dispatchFrom (ls @ [ErrorMiddleware, UnknownRoute]) err e st rq"
proof (induction ls arbitrary: err st rq)
  case Nil
  show ?case by (cases err) simp_all
next
  case (Cons l ls)
  show ?case
  proof (cases l)
    case JsonParser
    with Cons show ?thesis
      by (cases err) (simp_all split: sum.splits)
  next
    case (Route m p h)
    with Cons show ?thesis
      by (cases err) (simp_all split: option.splits prod.splits outcome.splits)
  next
    case ErrorMiddleware
    with Cons show ?thesis by (cases err) simp_all
  next
    case UnknownRoute
    with Cons show ?thesis by (cases err) simp_all
  qed
qed

lemma routes_split:
  "routes = butlast (butlast (butlast routes)) @ ErrorMiddleware # UnknownRoute
      # [Route GET [Lit ''notes''] GetNotesPaginated]"
  "butlast routes = butlast (butlast (butlast routes)) @ [ErrorMiddleware, UnknownRoute]"
  by (simp_all add: routes_def)

lemma paginated_route_is_never_reached:
  "dispatch e st rq = dispatchFrom (butlast routes) None e st rq"
  unfolding dispatch_def
  using routes_split dispatchFrom_behind_the_middlewares
  by metis

text \<open>
  The application is the JSON parser, then the routes: a request the parser refuses goes
  to the error middleware, one it hands on goes to the routes. The last route is never
  reached from there either.
\<close>

lemma dispatchFrom_routes_error:
  "dispatchFrom routes (Some err) e st rq = (error_middleware err, st)"
  by (simp add: routes_def)

lemma handle_refused:
  "express_json rq = Inl err \<Longrightarrow> handle e st rq = (error_middleware err, st)"
  by (simp add: handle_def app_def dispatchFrom_routes_error)

lemma handle_handed_on:
  "express_json rq = Inr rq' \<Longrightarrow> handle e st rq = dispatch e st rq'"
  by (simp add: handle_def app_def dispatch_def)

lemma handle_never_reaches_the_paginated_route:
  "handle e st rq = dispatchFrom (JsonParser # butlast routes) None e st rq"
proof (cases "express_json rq")
  case (Inl err)
  then show ?thesis
    using routes_split dispatchFrom_behind_the_middlewares [of "butlast (butlast (butlast routes))"]
    by (simp add: handle_def app_def) metis
next
  case (Inr rq')
  then show ?thesis
    using paginated_route_is_never_reached [of e st rq']
    by (simp add: handle_def app_def dispatch_def)
qed

text \<open>What the parser hands on differs from the request in \<^verbatim>\<open>req.body\<close> only.\<close>

lemma express_json_Inr:
  "express_json rq = Inr rq' \<Longrightarrow>
     http_method rq' = http_method rq \<and> path rq' = path rq \<and> query rq' = query rq
     \<and> content rq' = content rq \<and> protocol rq' = protocol rq \<and> host rq' = host rq"
  by (auto simp: express_json_def split: content.splits if_splits)

lemma express_json_isRoute:
  "express_json rq = Inr rq' \<Longrightarrow> isRoute m p rq' params = isRoute m p rq params"
  by (simp add: isRoute_def express_json_Inr)

lemma express_json_JsonText:
  "content rq = JsonText v x \<Longrightarrow>
     express_json rq =
       (if bodyLimit < jsonBytes v + x then Inl EntityTooLarge
        else if objectOrArray v then Inr (rq\<lparr>body := v\<rparr>)
        else Inl EntityParseFailed)"
  by (simp add: express_json_def)

lemma dispatch_get_notes:
  assumes "isRoute GET [Lit ''notes''] rq ps"
  shows "dispatch e st rq = (\<lparr>status = 200, payload = NoteList (collection st)\<rparr>, st)"
proof -
  from assms obtain s where p: "path rq = [s]" "map toLower s = ''notes''" and m: "http_method rq = GET"
    by (auto simp: isRoute_def matchPath_Lit)
  show ?thesis
    by (simp add: dispatch_def routes_def p m get_notes_def Note_find_def)
qed

lemma dispatch_post_notes:
  assumes "isRoute POST [Lit ''notes''] rq ps"
  shows "dispatch e st rq =
     (case post_notes e st rq of
        (Responded r, st') \<Rightarrow> (r, st')
      | (NextErr err, st') \<Rightarrow> (error_middleware err, st'))"
proof -
  from assms obtain s where p: "path rq = [s]" "map toLower s = ''notes''" and m: "http_method rq = POST"
    by (auto simp: isRoute_def matchPath_Lit)
  show ?thesis
    by (simp add: dispatch_def routes_def p m split: prod.splits outcome.splits)
qed

lemma dispatch_post_upload:
  assumes "isRoute POST [Lit ''upload''] rq ps"
  shows "dispatch e st rq =
     (case post_upload e st rq of
        (Responded r, st') \<Rightarrow> (r, st')
      | (NextErr err, st') \<Rightarrow> (error_middleware err, st'))"
proof -
  from assms obtain s where p: "path rq = [s]" "map toLower s = ''upload''" and m: "http_method rq = POST"
    by (auto simp: isRoute_def matchPath_Lit)
  show ?thesis
    by (simp add: dispatch_def routes_def p m split: prod.splits outcome.splits)
qed

lemma dispatch_get_notes_id:
  assumes "isRoute GET [Lit ''notes'', Param ''id''] rq [(''id'', i)]"
  shows "dispatch e st rq =
     (case get_notes_id st i of
        (Responded r, st') \<Rightarrow> (r, st')
      | (NextErr err, st') \<Rightarrow> (error_middleware err, st'))"
proof -
  from assms obtain s where p: "path rq = [s, i]" "map toLower s = ''notes''" "i \<noteq> []"
    and m: "http_method rq = GET"
    by (auto simp: isRoute_def matchPath_Lit_Param)
  show ?thesis
    by (simp add: dispatch_def routes_def p m withId_def split: prod.splits outcome.splits)
qed

lemma dispatch_put_notes_id:
  assumes "isRoute PUT [Lit ''notes'', Param ''id''] rq [(''id'', i)]"
  shows "dispatch e st rq =
     (case put_notes_id st rq i of
        (Responded r, st') \<Rightarrow> (r, st')
      | (NextErr err, st') \<Rightarrow> (error_middleware err, st'))"
proof -
  from assms obtain s where p: "path rq = [s, i]" "map toLower s = ''notes''" "i \<noteq> []"
    and m: "http_method rq = PUT"
    by (auto simp: isRoute_def matchPath_Lit_Param)
  show ?thesis
    by (simp add: dispatch_def routes_def p m withId_def split: prod.splits outcome.splits)
qed

lemma dispatch_delete_notes_id:
  assumes "isRoute DELETE [Lit ''notes'', Param ''id''] rq [(''id'', i)]"
  shows "dispatch e st rq =
     (case delete_notes_id st i of
        (Responded r, st') \<Rightarrow> (r, st')
      | (NextErr err, st') \<Rightarrow> (error_middleware err, st'))"
proof -
  from assms obtain s where p: "path rq = [s, i]" "map toLower s = ''notes''" "i \<noteq> []"
    and m: "http_method rq = DELETE"
    by (auto simp: isRoute_def matchPath_Lit_Param)
  show ?thesis
    by (simp add: dispatch_def routes_def p m withId_def split: prod.splits outcome.splits)
qed

section \<open>Validation\<close>

text \<open>When \<^verbatim>\<open>noteSchemaJoi\<close> accepts a body, and what a refused body is answered.\<close>

lemma lengthOutside_joi_string:
  "lengthOutside lo hi v \<Longrightarrow> joi_string k lo hi v \<noteq> None"
  by (cases "(k, lo, hi, v)" rule: joi_string.cases) auto

lemma joi_string_None_iff:
  "joi_string k lo hi v = None \<longleftrightarrow>
     (\<exists>s. v = Some (JStr s) \<and> s \<noteq> [] \<and> lo \<le> length s \<and> length s \<le> hi)"
  by (cases "(k, lo, hi, v)" rule: joi_string.cases) auto

lemma noteSchemaJoi_JObj_None:
  "noteSchemaJoi (JObj kvs) = None \<longleftrightarrow>
     joi_string ''titre'' 2 100 (map_of kvs ''titre'') = None
     \<and> joi_string ''contenu'' 2 1000 (map_of kvs ''contenu'') = None
     \<and> set (map fst kvs) \<subseteq> {''titre'', ''contenu''}"
proof -
  have keys: "filter (\<lambda>k. k \<noteq> ''titre'' \<and> k \<noteq> ''contenu'') (map fst kvs) = []
      \<longleftrightarrow> set (map fst kvs) \<subseteq> {''titre'', ''contenu''}"
    by (auto simp: filter_empty_conv)
  show ?thesis
    unfolding noteSchemaJoi_def keys [symmetric]
    by (simp split: option.splits list.splits)
qed

lemma noteSchemaJoi_None_iff:
  "noteSchemaJoi b = None \<longleftrightarrow>
     (\<exists>kvs t c. b = JObj kvs
        \<and> map_of kvs ''titre'' = Some (JStr t) \<and> 2 \<le> length t \<and> length t \<le> 100
        \<and> map_of kvs ''contenu'' = Some (JStr c) \<and> 2 \<le> length c \<and> length c \<le> 1000
        \<and> set (map fst kvs) \<subseteq> {''titre'', ''contenu''})"
proof (cases b)
  case (JObj kvs)
  have two: "(2::nat) \<le> length s \<Longrightarrow> s \<noteq> []" for s :: string
    by auto
  show ?thesis
    unfolding JObj noteSchemaJoi_JObj_None joi_string_None_iff
    using two by (simp, blast)
qed (simp_all add: noteSchemaJoi_def)

lemma noteSchemaJoi_first:
  assumes "joi_string ''titre'' 2 100 (map_of kvs ''titre'') \<noteq> None
     \<or> joi_string ''contenu'' 2 1000 (map_of kvs ''contenu'') \<noteq> None"
  shows "\<exists>err. noteSchemaJoi (JObj kvs) = Some err
     \<and> (case joi_string ''titre'' 2 100 (map_of kvs ''titre'') of
          Some e1 \<Rightarrow> err = e1
        | None \<Rightarrow> joi_string ''contenu'' 2 1000 (map_of kvs ''contenu'') = Some err)"
  using assms by (auto simp: noteSchemaJoi_def split: option.splits)

lemma noteSchemaJoi_exactKeys:
  assumes "noteSchemaJoi b = None"
  shows "exactKeys b"
proof -
  from assms obtain kvs t c where b: "b = JObj kvs"
    and t: "map_of kvs ''titre'' = Some (JStr t)"
    and c: "map_of kvs ''contenu'' = Some (JStr c)"
    and sub: "set (map fst kvs) \<subseteq> {''titre'', ''contenu''}"
    by (auto simp: noteSchemaJoi_None_iff)
  from t have "''titre'' \<in> set (map fst kvs)"
    by (metis map_of_eq_None_iff option.distinct(1) set_map)
  moreover from c have "''contenu'' \<in> set (map fst kvs)"
    by (metis map_of_eq_None_iff option.distinct(1) set_map)
  ultimately show ?thesis using sub by (auto simp: exactKeys_def b)
qed

lemma post_notes_invalid:
  "noteSchemaJoi (body rq) = Some err \<Longrightarrow>
     post_notes e st rq = (Responded \<lparr>status = 400, payload = ErreurValidation err\<rparr>, st)"
  by (simp add: post_notes_def)

lemma put_notes_id_invalid:
  "noteSchemaJoi (body rq) = Some err \<Longrightarrow>
     put_notes_id st rq i = (Responded \<lparr>status = 400, payload = ErreurValidation err\<rparr>, st)"
  by (simp add: put_notes_id_def)

lemma dispatch_invalid:
  assumes "isRoute POST [Lit ''notes''] rq [] \<or> isRoute PUT [Lit ''notes'', Param ''id''] rq [(''id'', i)]"
    and "noteSchemaJoi (body rq) = Some err"
  shows "dispatch e st rq = (\<lparr>status = 400, payload = ErreurValidation err\<rparr>, st)"
  using assms
  by (auto simp: dispatch_post_notes dispatch_put_notes_id post_notes_invalid put_notes_id_invalid)

lemma exactKeys_keys:
  "exactKeys (JObj kvs) \<longleftrightarrow>
     list_all (\<lambda>k. k = ''titre'' \<or> k = ''contenu'') (map fst kvs)
     \<and> ''titre'' \<in> set (map fst kvs) \<and> ''contenu'' \<in> set (map fst kvs)"
  unfolding exactKeys_def json.case list_all_iff by blast

section \<open>The collection, the sort and the names of the files\<close>

text \<open>
  Facts on the operations of the collection under unique identifiers, on the sort of the
  paginated listing, and on the decimal text of a time stamp, which reads back as the
  number it writes.
\<close>

lemma find_unique:
  "distinct (map oid ns) \<Longrightarrow> n \<in> set ns \<Longrightarrow> find (\<lambda>m. oid m = oid n) ns = Some n"
  by (induction ns) (auto simp: image_iff)

lemma find_None_iff_oid: "find (\<lambda>m. oid m = k) ns = None \<longleftrightarrow> k \<notin> oid ` set ns"
  by (induction ns) auto

lemma find_Some_oid: "find (\<lambda>m. oid m = k) ns = Some n \<Longrightarrow> n \<in> set ns \<and> oid n = k"
  by (induction ns) (auto split: if_splits)

lemma oid_deleteOne_subset: "oid ` set (deleteOne k ns) \<subseteq> oid ` set ns"
  by (induction ns) auto

lemma distinct_deleteOne: "distinct (map oid ns) \<Longrightarrow> distinct (map oid (deleteOne k ns))"
proof (induction ns)
  case Nil
  then show ?case by simp
next
  case (Cons n ns)
  then show ?case using oid_deleteOne_subset [of k ns] by auto
qed

lemma deleteOne_removes:
  "distinct (map oid ns) \<Longrightarrow> k \<notin> oid ` set (deleteOne k ns)"
proof (induction ns)
  case Nil
  then show ?case by simp
next
  case (Cons n ns)
  then show ?case by auto
qed

lemma map_oid_updateOne: "map oid (updateOne k t c ns) = map oid ns"
  by (induction ns) auto

lemma updateOne_split:
  "distinct (map oid ns) \<Longrightarrow> n \<in> set ns \<Longrightarrow>
     \<exists>pre post. ns = pre @ n # post
       \<and> updateOne (oid n) t c ns = pre @ n\<lparr>titre := t, contenu := c\<rparr> # post"
proof (induction ns)
  case Nil
  then show ?case by simp
next
  case (Cons m ns)
  show ?case
  proof (cases "m = n")
    case True
    then have "m # ns = [] @ n # ns
      \<and> updateOne (oid n) t c (m # ns) = [] @ n\<lparr>titre := t, contenu := c\<rparr> # ns"
      by simp
    then show ?thesis by blast
  next
    case False
    with Cons.prems have n: "n \<in> set ns" and d: "distinct (map oid ns)" and ne: "oid m \<noteq> oid n"
      by (auto simp: image_iff)
    from Cons.IH [OF d n] obtain pre post where
      "ns = pre @ n # post"
      "updateOne (oid n) t c ns = pre @ n\<lparr>titre := t, contenu := c\<rparr> # post"
      by blast
    with ne have "m # ns = (m # pre) @ n # post
      \<and> updateOne (oid n) t c (m # ns) = (m # pre) @ n\<lparr>titre := t, contenu := c\<rparr> # post"
      by simp
    then show ?thesis by blast
  qed
qed

lemma sort_key_const: "sort_key (\<lambda>n. c) ns = ns"
  by (induction ns) (auto simp: insort_is_Cons)

lemma sortDocs_const: "sortDocs d (\<lambda>n. c) ns = ns"
  by (simp add: sortDocs_def sort_key_const)

lemma Query_sort_other: "k \<notin> set schemaPaths \<Longrightarrow> Query_sort k d ns = ns"
  by (simp add: Query_sort_def schemaPaths_def sortDocs_const)

lemma length_Query_sort: "length (Query_sort k d ns) = length ns"
  by (simp add: Query_sort_def sortDocs_def)

lemma set_Query_sort: "set (Query_sort k d ns) = set ns"
  by (simp add: Query_sort_def sortDocs_def)

lemma ceiling_div_5: "\<lceil>real n / real_of_int 5\<rceil> = int ((n + 4) div 5)"
proof -
  have "\<lceil>real n / real_of_int 5\<rceil> = - (- int n div 5)"
    using ceiling_divide_eq_div [of "int n" 5] by simp
  also have "\<dots> = int ((n + 4) div 5)"
    by (simp add: zdiv_int)
  finally show ?thesis .
qed

lemma decDigit_digitChar: "d < 10 \<Longrightarrow> decDigit (digitChar d) = Some d"
proof -
  assume "d < 10"
  then have "d \<in> {0, 1, 2, 3, 4, 5, 6, 7, 8, 9}" by auto
  then show ?thesis
    by (auto simp: decDigit_def digitChar_def)
qed

lemma digitsValue_append:
  "\<forall>c \<in> set xs. d c \<noteq> None \<Longrightarrow>
     digitsValue d r acc (xs @ ys) = digitsValue d r (digitsValue d r acc xs) ys"
  by (induction xs arbitrary: acc) auto

declare numberToString.simps [simp del]

lemma numberToString_digits: "\<forall>c \<in> set (numberToString n). decDigit c \<noteq> None"
proof (induction n rule: numberToString.induct)
  case (1 n)
  show ?case
  proof (cases "n < 10")
    case True
    then show ?thesis
      using decDigit_digitChar [of n] by (subst numberToString.simps) simp
  next
    case False
    have "n mod 10 < 10" by simp
    from decDigit_digitChar [OF this] "1.IH" [OF False] False
    show ?thesis by (subst numberToString.simps) simp
  qed
qed

lemma numberToString_value: "digitsValue decDigit 10 0 (numberToString n) = n"
proof (induction n rule: numberToString.induct)
  case (1 n)
  show ?case
  proof (cases "n < 10")
    case True
    then show ?thesis
      using decDigit_digitChar [of n] by (subst numberToString.simps) simp
  next
    case False
    have m: "n mod 10 < 10" by simp
    have "digitsValue decDigit 10 0 (numberToString n)
        = digitsValue decDigit 10 (digitsValue decDigit 10 0 (numberToString (n div 10)))
            [digitChar (n mod 10)]"
      using False numberToString_digits [of "n div 10"]
      by (subst numberToString.simps) (simp add: digitsValue_append)
    also have "\<dots> = (n div 10) * 10 + n mod 10"
      using "1.IH" [OF False] decDigit_digitChar [OF m] by simp
    finally show ?thesis by simp
  qed
qed

text \<open>The text of a number is its decimal numeral.\<close>

lemma of_char_digitChar: "d < 10 \<Longrightarrow> (of_char (digitChar d) :: nat) = 48 + d"
proof -
  assume "d < 10"
  then have "d \<in> {0, 1, 2, 3, 4, 5, 6, 7, 8, 9}" by auto
  then show ?thesis
    by (auto simp: digitChar_def)
qed

lemma numberToString_not_Nil: "numberToString n \<noteq> []"
  by (subst numberToString.simps) simp

lemma numberToString_all_digits:
  "list_all (\<lambda>c. 48 \<le> (of_char c :: nat) \<and> (of_char c :: nat) \<le> 57) (numberToString n)"
proof (induction n rule: numberToString.induct)
  case (1 n)
  have m: "n mod 10 < 10" by simp
  show ?case
  proof (cases "n < 10")
    case True
    then show ?thesis
      by (subst numberToString.simps) (simp add: of_char_digitChar)
  next
    case False
    with "1.IH" of_char_digitChar [OF m] show ?thesis
      by (subst numberToString.simps) simp
  qed
qed

lemma numberToString_leading: "0 < n \<Longrightarrow> hd (numberToString n) \<noteq> CHR ''0''"
proof (induction n rule: numberToString.induct)
  case (1 n)
  show ?case
  proof (cases "n < 10")
    case True
    with "1.prems" have "(of_char (digitChar n) :: nat) \<noteq> of_char (CHR ''0'')"
      by (simp add: of_char_digitChar)
    then have "digitChar n \<noteq> CHR ''0''" by auto
    with True show ?thesis
      by (subst numberToString.simps) simp
  next
    case False
    then have "0 < n div 10" by simp
    from "1.IH" [OF False this] False show ?thesis
      by (subst numberToString.simps) (simp add: numberToString_not_Nil)
  qed
qed

lemma numberToString_foldl:
  "foldl (\<lambda>a c. 10 * a + ((of_char c :: nat) - 48)) 0 (numberToString n) = n"
proof (induction n rule: numberToString.induct)
  case (1 n)
  have m: "n mod 10 < 10" by simp
  show ?case
  proof (cases "n < 10")
    case True
    then show ?thesis
      by (subst numberToString.simps) (simp add: of_char_digitChar)
  next
    case False
    with "1.IH" of_char_digitChar [OF m] show ?thesis
      by (subst numberToString.simps) simp
  qed
qed

lemma isDecimalOf_numberToString: "isDecimalOf (numberToString n) n"
proof -
  have "1 < length (numberToString n) \<longrightarrow> hd (numberToString n) \<noteq> CHR ''0''"
  proof (cases "n = 0")
    case True
    then show ?thesis by (subst numberToString.simps) simp
  next
    case False
    then show ?thesis using numberToString_leading [of n] by simp
  qed
  then show ?thesis
    unfolding isDecimalOf_def
    using numberToString_not_Nil numberToString_all_digits numberToString_foldl
    by blast
qed

section \<open>The parsers\<close>

text \<open>
  The JSON parser on a body it does not read and on a body with a long field, the walk of
  multer over the files of a form, and the answers of the upload route on its error
  paths.
\<close>

lemma jsonBytes_field:
  "map_of kvs k = Some v \<Longrightarrow> jsonBytes v \<le> jsonBytes (JObj kvs)"
proof -
  let ?f = "\<lambda>kv. length (fst kv) + 3 + jsonBytes (snd kv)"
  assume "map_of kvs k = Some v"
  then have "(k, v) \<in> set kvs" by (rule map_of_SomeD)
  then have "?f (k, v) \<in> ?f ` set kvs" by (rule imageI)
  then have "?f (k, v) \<in> set (map ?f kvs)" by (simp only: set_map)
  then have "?f (k, v) \<le> sum_list (map ?f kvs)" by (intro member_le_sum_list) simp_all
  then show ?thesis by simp
qed

text \<open>
  A field of more than 102400 characters makes the body of a request too large for the
  JSON parser, whatever else the body holds.
\<close>

lemma long_field_is_refused:
  assumes "content rq = JsonText (JObj kvs) x"
    and "map_of kvs k = Some (JStr s)"
    and "102400 < length s"
  shows "express_json rq = Inl EntityTooLarge"
proof -
  from jsonBytes_field [OF assms(2)] assms(3) have "bodyLimit < jsonBytes (JObj kvs) + x"
    by (simp add: bodyLimit_def)
  then show ?thesis
    by (simp add: express_json_JsonText [OF assms(1)])
qed

lemma multer_files_answers:
  assumes "uploadsDir e"
  shows "multer_files e 1 None fs =
     (case fs of
        [] \<Rightarrow> (None, None)
      | [f] \<Rightarrow>
          if fieldname f = ''fichier'' then (None, Some (storage_filename e f))
          else (Some (UnexpectedField (fieldname f)), None)
      | f # g # fs' \<Rightarrow>
          if fieldname f = ''fichier''
          then (Some (UnexpectedField (fieldname g)), Some (storage_filename e f))
          else (Some (UnexpectedField (fieldname f)), None))"
  using assms by (auto split: list.splits)

lemma express_json_hands_on_forms:
  "content rq = NoContent \<or> content rq = Multipart fs \<Longrightarrow> express_json rq = Inr rq"
  by (auto simp: express_json_def)

lemma upload_single_answers:
  assumes "uploadsDir e" and "c \<noteq> BadForm"
  shows "upload_single e st c =
     (case formFiles c of
        [] \<Rightarrow> (Inr None, st)
      | [f] \<Rightarrow>
          if fieldname f = ''fichier''
          then (Inr (Some (storage_filename e f)),
                st\<lparr>uploads := List.insert (storage_filename e f) (uploads st)\<rparr>)
          else (Inl (UnexpectedField (fieldname f)), st)
      | f # g # fs' \<Rightarrow>
          if fieldname f = ''fichier''
          then (Inl (UnexpectedField (fieldname g)),
                st\<lparr>uploads := removeAll (storage_filename e f) (uploads st)\<rparr>)
          else (Inl (UnexpectedField (fieldname f)), st))"
  unfolding upload_single_def multer_files_answers [OF assms(1)]
  using assms(2) by (simp split: list.splits)

lemma handle_without_json:
  "content rq = NoContent \<or> content rq = Multipart fs \<Longrightarrow> handle e st rq = dispatch e st rq"
  by (rule handle_handed_on [OF express_json_hands_on_forms])

lemma handle_req:
  "objectOrArray b \<Longrightarrow> jsonBytes b \<le> 102400 \<Longrightarrow>
     handle e st (req m p q b) = dispatch e st (req m p q b)"
proof -
  assume "objectOrArray b" "jsonBytes b \<le> 102400"
  then have "express_json (req m p q b) = Inr (req m p q b)"
    by (simp add: express_json_def req_def bodyLimit_def)
  then show ?thesis by (rule handle_handed_on)
qed

lemma upload_without_the_directory:
  assumes "isRoute POST [Lit ''upload''] rq []"
    and "content rq = Multipart fs"
    and "formFiles (content rq) = f # fs'"
    and "fieldname f = ''fichier''"
    and "\<not> uploadsDir e"
  shows "handle e st rq = (\<lparr>status = 500, payload = ErreurDetails ErreurServeur NoSuchDirectory\<rparr>, st)"
proof -
  have "post_upload e st rq = (NextErr NoSuchDirectory, st)"
    using assms(2,3,4,5) by (simp add: post_upload_def upload_single_def)
  then show ?thesis
    using assms(2)
    by (simp add: handle_without_json dispatch_post_upload [OF assms(1)] error_middleware_def)
qed

lemma upload_of_no_form:
  assumes "isRoute POST [Lit ''upload''] rq []"
    and "content rq = BadForm"
  shows "handle e st rq = (\<lparr>status = 500, payload = ErreurDetails ErreurServeur MalformedForm\<rparr>, st)"
proof -
  have p: "express_json rq = Inr rq"
    using assms(2) by (simp add: express_json_def)
  have "post_upload e st rq = (NextErr MalformedForm, st)"
    using assms(2) by (simp add: post_upload_def upload_single_def)
  then show ?thesis
    by (simp add: handle_handed_on [OF p] dispatch_post_upload [OF assms(1)] error_middleware_def)
qed

section \<open>Unique identifiers\<close>

text \<open>
  The empty collection has unique identifiers and every request keeps them unique, so
  every collection the application reaches has them.
\<close>

lemma runHandler_uniqueIds:
  assumes "uniqueIds st" and "runHandler h e st rq params = (out, st')"
  shows "uniqueIds st'"
proof (cases h)
  case PostUpload
  with assms show ?thesis
    by (auto simp: post_upload_def upload_single_def uniqueIds_def Let_def
        split: option.splits sum.splits prod.splits if_splits)
next
  case PostNotes
  with assms show ?thesis
    by (auto simp: post_notes_def Note_save_def uniqueIds_def Let_def
        split: option.splits sum.splits if_splits)
next
  case GetNotes
  with assms show ?thesis by (auto simp: get_notes_def)
next
  case GetNotesId
  with assms show ?thesis
    by (auto simp: withId_def get_notes_id_def split: option.splits sum.splits)
next
  case PutNotesId
  with assms show ?thesis
    by (auto simp: withId_def put_notes_id_def Note_findByIdAndUpdate_def uniqueIds_def
        map_oid_updateOne split: option.splits sum.splits prod.splits)
next
  case DeleteNotesId
  with assms show ?thesis
    by (auto simp: withId_def delete_notes_id_def Note_findByIdAndDelete_def uniqueIds_def
        distinct_deleteOne split: option.splits sum.splits prod.splits)
next
  case GetNotesPaginated
  with assms show ?thesis
    by (auto simp: get_notes_paginated_def Let_def split: if_splits)
qed

lemma dispatchFrom_uniqueIds:
  "uniqueIds st \<Longrightarrow> uniqueIds (snd (dispatchFrom ls err e st rq))"
proof (induction ls arbitrary: err st rq)
  case Nil
  then show ?case by (cases err) simp_all
next
  case (Cons l ls)
  show ?case
  proof (cases l)
    case JsonParser
    with Cons show ?thesis
      by (cases err) (simp_all split: sum.splits)
  next
    case (Route m p h)
    show ?thesis
    proof (cases err)
      case (Some x)
      with Route Cons show ?thesis by simp
    next
      case None
      show ?thesis
      proof (cases "m = http_method rq \<and> matchPath p (path rq) \<noteq> None")
        case False
        with Route None Cons show ?thesis by auto
      next
        case True
        then obtain params where mp: "m = http_method rq" "matchPath p (path rq) = Some params"
          by auto
        obtain out st' where run: "runHandler h e st rq params = (out, st')"
          by (cases "runHandler h e st rq params")
        from runHandler_uniqueIds [OF Cons.prems run] have u: "uniqueIds st'" .
        from Cons.IH [OF u] Route None mp run u show ?thesis
          by (cases out) simp_all
      qed
    qed
  next
    case ErrorMiddleware
    with Cons show ?thesis by (cases err) simp_all
  next
    case UnknownRoute
    with Cons show ?thesis by (cases err) simp_all
  qed
qed

lemma dispatch_uniqueIds: "uniqueIds st \<Longrightarrow> uniqueIds (snd (dispatch e st rq))"
  by (simp add: dispatch_def dispatchFrom_uniqueIds)

lemma handle_uniqueIds: "uniqueIds st \<Longrightarrow> uniqueIds (snd (handle e st rq))"
  by (simp add: handle_def dispatchFrom_uniqueIds)

lemma uniqueIds_empty: "uniqueIds \<lparr>collection = [], uploads = []\<rparr>"
  by (simp add: uniqueIds_def)

section \<open>The properties\<close>

lemmas eval_query =
  get_notes_paginated_def page_def limit_def skip_def sortBy_def sortOrder_def parseInt_def
  orDefault_def parseMagnitude_def decDigit_def hexDigit_def isWhiteSpace_def
  Query_sort_def sortDocs_def Note_find_def Note_countDocuments_def

lemmas eval_route = isRoute_def toLower_def req_def

text \<open>
  C1. GET /notes should answer with the paginated body. The route of lines 86 to 93
  answers first: the request \<^verbatim>\<open>GET /notes?page=1&limit=2\<close> on three notes gets
  the bare list of the three, where the handler of lines 159 to 183 would have sent the
  first page of two.
\<close>

theorem get_notes_is_answered_by_the_first_route:
  "dispatch someEnv threeNotes (req GET [''notes''] [(''page'', ''1''), (''limit'', ''2'')] (JObj []))
     = (\<lparr>status = 200, payload = NoteList [noteMaths, noteAlgo, noteChimie]\<rparr>, threeNotes)
   \<and> get_notes_paginated threeNotes
         (req GET [''notes''] [(''page'', ''1''), (''limit'', ''2'')] (JObj []))
     = (Responded \<lparr>status = 200, payload = Page 1 2 3 [noteMaths, noteAlgo]\<rparr>, threeNotes)"
proof -
  have "isRoute GET [Lit ''notes'']
      (req GET [''notes''] [(''page'', ''1''), (''limit'', ''2'')] (JObj [])) []"
    by (simp add: eval_route)
  from dispatch_get_notes [OF this]
  have "dispatch someEnv threeNotes
      (req GET [''notes''] [(''page'', ''1''), (''limit'', ''2'')] (JObj []))
     = (\<lparr>status = 200, payload = NoteList [noteMaths, noteAlgo, noteChimie]\<rparr>, threeNotes)"
    by (simp add: threeNotes_def)
  moreover have "get_notes_paginated threeNotes
         (req GET [''notes''] [(''page'', ''1''), (''limit'', ''2'')] (JObj []))
     = (Responded \<lparr>status = 200, payload = Page 1 2 3 [noteMaths, noteAlgo]\<rparr>, threeNotes)"
    by (simp add: eval_query req_def threeNotes_def)
  ultimately show ?thesis by simp
qed

text \<open>
  C2, as stated: an id that is not well formed is answered like an unknown one, with 404.
  The id \<^verbatim>\<open>abc\<close> is not well formed and is answered with 500.
\<close>

theorem malformed_id_is_not_answered_404:
  "castObjectId ''abc'' = None
   \<and> fst (dispatch someEnv threeNotes (req GET [''notes'', ''abc''] [] (JObj [])))
       = \<lparr>status = 500, payload = ErreurDetails ErreurServeur (CastError ''abc'')\<rparr>
   \<and> fst (dispatch someEnv threeNotes (req GET [''notes'', ''abc''] [] (JObj [])))
       \<noteq> \<lparr>status = 404, payload = Erreur NoteNonTrouvee\<rparr>"
proof -
  have r: "isRoute GET [Lit ''notes'', Param ''id'']
      (req GET [''notes'', ''abc''] [] (JObj [])) [(''id'', ''abc'')]"
    by (simp add: eval_route)
  have c: "castObjectId ''abc'' = None"
    by (simp add: castObjectId_def)
  show ?thesis
    by (simp add: dispatch_get_notes_id [OF r] get_notes_id_def Note_findById_def c
        error_middleware_def)
qed

text \<open>
  C2, amended: GET /notes/:id with an id that is not well formed passes the cast error to
  the error middleware, which answers 500 with \<^verbatim>\<open>Erreur serveur\<close> and the error as
  details; a well-formed id that matches no note is answered 404 with the fixed
  message, and one that matches is answered with the note. The collection stays as it is.
\<close>

theorem getById_answers:
  assumes "isRoute GET [Lit ''notes'', Param ''id''] rq [(''id'', i)]"
  shows "dispatch e st rq =
     (case castObjectId i of
        None \<Rightarrow> \<lparr>status = 500, payload = ErreurDetails ErreurServeur (CastError i)\<rparr>
      | Some k \<Rightarrow>
          (case find (\<lambda>n. oid n = k) (collection st) of
             None \<Rightarrow> \<lparr>status = 404, payload = Erreur NoteNonTrouvee\<rparr>
           | Some n \<Rightarrow> \<lparr>status = 200, payload = NoteDoc n\<rparr>),
      st)"
  by (simp add: dispatch_get_notes_id [OF assms] get_notes_id_def Note_findById_def
      error_middleware_def split: option.splits)

theorem getById_answers_witness:
  "dispatch someEnv threeNotes (req GET [''notes'', ''abc''] [] (JObj []))
     = (\<lparr>status = 500, payload = ErreurDetails ErreurServeur (CastError ''abc'')\<rparr>, threeNotes)
   \<and> dispatch someEnv threeNotes (req GET [''notes'', ''000000000000000000000009''] [] (JObj []))
     = (\<lparr>status = 404, payload = Erreur NoteNonTrouvee\<rparr>, threeNotes)
   \<and> dispatch someEnv threeNotes (req GET [''notes'', ''000000000000000000000002''] [] (JObj []))
     = (\<lparr>status = 200, payload = NoteDoc noteAlgo\<rparr>, threeNotes)"
proof -
  have r: "isRoute GET [Lit ''notes'', Param ''id''] (req GET [''notes'', i] [] (JObj [])) [(''id'', i)]"
    if "i \<noteq> []" for i
    using that by (simp add: eval_route)
  have c: "castObjectId ''abc'' = None"
    "castObjectId ''000000000000000000000009'' = Some 9"
    "castObjectId ''000000000000000000000002'' = Some 2"
    by (simp_all add: castObjectId_def hexDigit_def)
  show ?thesis
    using getById_answers [OF r [of "''abc''"], of someEnv threeNotes]
      getById_answers [OF r [of "''000000000000000000000009''"], of someEnv threeNotes]
      getById_answers [OF r [of "''000000000000000000000002''"], of someEnv threeNotes]
    by (simp add: c threeNotes_def noteMaths_def noteAlgo_def noteChimie_def)
qed

text \<open>
  C3, as stated: a create or update whose title (the field \<^verbatim>\<open>titre\<close> of the code) has a
  length outside 2 to 100 is answered 400. A \<^verbatim>\<open>titre\<close> of 200000 characters makes a
  body over the limit of the JSON parser: the parser passes its error to the error
  middleware, which answers 500.
\<close>

theorem long_titre_is_answered_500:
  "length longText = 200000
   \<and> lengthOutside 2 100
       (map_of [(''titre'', JStr longText), (''contenu'', JStr ''Calcul integral'')] ''titre'')
   \<and> handle someEnv threeNotes
       (req POST [''notes''] []
          (JObj [(''titre'', JStr longText), (''contenu'', JStr ''Calcul integral'')]))
     = (\<lparr>status = 500, payload = ErreurDetails ErreurServeur EntityTooLarge\<rparr>, threeNotes)"
proof -
  let ?rq = "req POST [''notes''] []
          (JObj [(''titre'', JStr longText), (''contenu'', JStr ''Calcul integral'')])"
  have l: "length longText = 200000"
    by (simp add: longText_def)
  have "express_json ?rq = Inl EntityTooLarge"
    by (simp add: express_json_def req_def bodyLimit_def l)
  from handle_refused [OF this] l show ?thesis
    by (simp add: error_middleware_def)
qed

text \<open>
  C3, amended: a create (POST /notes) or update (PUT /notes/:id) whose body is a JSON
  object of at most 100kb (102400 bytes) with a \<^verbatim>\<open>titre\<close> of length outside 2 to 100, or
  a \<^verbatim>\<open>contenu\<close> of length outside 2 to 1000, or without one of the two, is answered 400
  with the message of the first violated constraint: \<^verbatim>\<open>titre\<close> before \<^verbatim>\<open>contenu\<close>,
  and for each the missing field, the value that is no string, the empty string, the
  length under the minimum, the length over the maximum. Over 100kb the body is answered
  500 by the error middleware. The state stays as it is in both cases.
\<close>

theorem invalid_lengths_are_refused:
  assumes "isRoute POST [Lit ''notes''] rq []
      \<or> isRoute PUT [Lit ''notes'', Param ''id''] rq [(''id'', i)]"
    and "content rq = JsonText (JObj kvs) x"
    and "lengthOutside 2 100 (map_of kvs ''titre'')
      \<or> lengthOutside 2 1000 (map_of kvs ''contenu'')"
  shows "handle e st rq =
     (if 102400 < jsonBytes (JObj kvs) + x then
        \<lparr>status = 500, payload = ErreurDetails ErreurServeur EntityTooLarge\<rparr>
      else
        \<lparr>status = 400,
         payload = ErreurValidation
           (case map_of kvs ''titre'' of
              None \<Rightarrow> AnyRequired ''titre''
            | Some (JStr t) \<Rightarrow>
                if t = [] then StringEmpty ''titre''
                else if length t < 2 then StringMin ''titre'' 2
                else if 100 < length t then StringMax ''titre'' 100
                else
                  (case map_of kvs ''contenu'' of
                     None \<Rightarrow> AnyRequired ''contenu''
                   | Some (JStr c) \<Rightarrow>
                       if c = [] then StringEmpty ''contenu''
                       else if length c < 2 then StringMin ''contenu'' 2
                       else StringMax ''contenu'' 1000
                   | Some v \<Rightarrow> StringBase ''contenu'')
            | Some v \<Rightarrow> StringBase ''titre'')\<rparr>,
      st)"
proof (cases "102400 < jsonBytes (JObj kvs) + x")
  case True
  then have "express_json rq = Inl EntityTooLarge"
    by (simp add: express_json_JsonText [OF assms(2)] bodyLimit_def)
  from handle_refused [OF this] True show ?thesis
    by (simp add: error_middleware_def)
next
  case False
  let ?err = "case map_of kvs ''titre'' of
              None \<Rightarrow> AnyRequired ''titre''
            | Some (JStr t) \<Rightarrow>
                if t = [] then StringEmpty ''titre''
                else if length t < 2 then StringMin ''titre'' 2
                else if 100 < length t then StringMax ''titre'' 100
                else
                  (case map_of kvs ''contenu'' of
                     None \<Rightarrow> AnyRequired ''contenu''
                   | Some (JStr c) \<Rightarrow>
                       if c = [] then StringEmpty ''contenu''
                       else if length c < 2 then StringMin ''contenu'' 2
                       else StringMax ''contenu'' 1000
                   | Some v \<Rightarrow> StringBase ''contenu'')
            | Some v \<Rightarrow> StringBase ''titre''"
  from False have p: "express_json rq = Inr (rq\<lparr>body := JObj kvs\<rparr>)"
    by (simp add: express_json_JsonText [OF assms(2)] bodyLimit_def)
  have r: "isRoute POST [Lit ''notes''] (rq\<lparr>body := JObj kvs\<rparr>) []
      \<or> isRoute PUT [Lit ''notes'', Param ''id''] (rq\<lparr>body := JObj kvs\<rparr>) [(''id'', i)]"
    using assms(1) by (simp add: express_json_isRoute [OF p])
  have v: "noteSchemaJoi (body (rq\<lparr>body := JObj kvs\<rparr>)) = Some ?err"
    using assms(3)
    by (auto simp: noteSchemaJoi_def split: option.splits json.splits)
  from dispatch_invalid [OF r v, of e st] False show ?thesis
    by (simp add: handle_handed_on [OF p])
qed

theorem invalid_lengths_are_refused_witness:
  "handle someEnv threeNotes
     (req POST [''notes''] [] (JObj [(''titre'', JStr ''M''), (''contenu'', JStr ''Calcul integral'')]))
     = (\<lparr>status = 400, payload = ErreurValidation (StringMin ''titre'' 2)\<rparr>, threeNotes)
   \<and> handle someEnv threeNotes
     (req PUT [''notes'', ''000000000000000000000002''] [] (JObj [(''titre'', JStr ''Maths'')]))
     = (\<lparr>status = 400, payload = ErreurValidation (AnyRequired ''contenu'')\<rparr>, threeNotes)"
proof -
  have r1: "isRoute POST [Lit ''notes''] (req POST [''notes''] [] b) []
      \<or> isRoute PUT [Lit ''notes'', Param ''id''] (req POST [''notes''] [] b) [(''id'', i)]" for b i
    by (simp add: eval_route)
  have r2: "isRoute POST [Lit ''notes''] (req PUT [''notes'', ''000000000000000000000002''] [] b) []
      \<or> isRoute PUT [Lit ''notes'', Param ''id'']
          (req PUT [''notes'', ''000000000000000000000002''] [] b)
          [(''id'', ''000000000000000000000002'')]" for b
    by (simp add: eval_route)
  have c: "content (req m p q b) = JsonText b 0" for m p q b
    by (simp add: req_def)
  show ?thesis
    using invalid_lengths_are_refused [OF r1 c, of "[(''titre'', JStr ''M''), (''contenu'', JStr ''Calcul integral'')]" someEnv threeNotes]
      invalid_lengths_are_refused [OF r2 c, of "[(''titre'', JStr ''Maths'')]" someEnv threeNotes]
    by simp
qed

text \<open>
  C4. On a collection of N notes, the paginated listing with page=1 and limit=5 answers
  200 with totalNotes N, totalPages the ceiling of N / 5 and min 5 N notes, whatever the
  sort.
\<close>

theorem first_page_of_five:
  assumes "map_of (query rq) ''page'' = Some ''1''"
    and "map_of (query rq) ''limit'' = Some ''5''"
  shows "\<exists>found.
      get_notes_paginated st rq =
        (Responded
           \<lparr>status = 200,
            payload = Page 1 \<lceil>real (length (collection st)) / 5\<rceil> (length (collection st)) found\<rparr>,
         st)
      \<and> \<lceil>real (length (collection st)) / 5\<rceil> = int ((length (collection st) + 4) div 5)
      \<and> length found = min 5 (length (collection st))
      \<and> set found \<subseteq> set (collection st)"
proof -
  have p: "page rq = 1" and l: "limit rq = 5"
    using assms
    by (simp_all add: page_def limit_def parseInt_def orDefault_def parseMagnitude_def
        decDigit_def isWhiteSpace_def)
  then have s: "skip rq = 0" by (simp add: skip_def)
  have c: "\<lceil>real (length (collection st)) / 5\<rceil> = int ((length (collection st) + 4) div 5)"
    using ceiling_div_5 [of "length (collection st)"] by simp
  have "set (take 5 (Query_sort (sortBy rq) (sortOrder rq) (collection st))) \<subseteq> set (collection st)"
    using set_take_subset [of 5 "Query_sort (sortBy rq) (sortOrder rq) (collection st)"]
    by (simp add: set_Query_sort)
  with c show ?thesis
    by (intro exI [of _ "take 5 (Query_sort (sortBy rq) (sortOrder rq) (collection st))"])
      (simp add: get_notes_paginated_def p l s Note_countDocuments_def Note_find_def
        length_Query_sort Let_def)
qed

theorem first_page_of_five_witness:
  "get_notes_paginated threeNotes
     (req GET [''notes''] [(''page'', ''1''), (''limit'', ''5''), (''sortBy'', ''dateAjout'')] (JObj []))
     = (Responded \<lparr>status = 200, payload = Page 1 1 3 [noteAlgo, noteMaths, noteChimie]\<rparr>, threeNotes)"
proof -
  have q: "map_of (query (req GET [''notes''] [(''page'', ''1''), (''limit'', ''5''), (''sortBy'', ''dateAjout'')] (JObj []))) ''page'' = Some ''1''"
    "map_of (query (req GET [''notes''] [(''page'', ''1''), (''limit'', ''5''), (''sortBy'', ''dateAjout'')] (JObj []))) ''limit'' = Some ''5''"
    by (simp_all add: req_def)
  from first_page_of_five [OF q, of threeNotes]
  have "fst (get_notes_paginated threeNotes
     (req GET [''notes''] [(''page'', ''1''), (''limit'', ''5''), (''sortBy'', ''dateAjout'')] (JObj [])))
     \<noteq> Responded \<lparr>status = 500, payload = ErrorKey ErreurRecuperationNotes\<rparr>"
    by auto
  then show ?thesis
    by (simp add: eval_query req_def threeNotes_def noteMaths_def noteAlgo_def noteChimie_def)
qed

text \<open>
  C5. For a stored note and a valid payload, the update (PUT /notes/:id) succeeds and
  replaces the \<^verbatim>\<open>titre\<close> and the \<^verbatim>\<open>contenu\<close> of that note only: its \<^verbatim>\<open>_id\<close> and its
  \<^verbatim>\<open>dateAjout\<close> stay, and so do the notes before and after it and the uploaded files.
\<close>

theorem update_replaces_titre_and_contenu_only:
  assumes "isRoute PUT [Lit ''notes'', Param ''id''] rq [(''id'', i)]"
    and "noteSchemaJoi (body rq) = None"
    and "body rq = JObj kvs"
    and "map_of kvs ''titre'' = Some (JStr t)"
    and "map_of kvs ''contenu'' = Some (JStr c)"
    and "uniqueIds st"
    and "n \<in> set (collection st)"
    and "castObjectId i = Some (oid n)"
  shows "\<exists>pre post n'.
      collection st = pre @ n # post
      \<and> n' = n\<lparr>titre := t, contenu := c\<rparr>
      \<and> oid n' = oid n \<and> dateAjout n' = dateAjout n
      \<and> dispatch e st rq =
          (\<lparr>status = 200, payload = MessageNote NoteModifieeAvecSucces n'\<rparr>,
           st\<lparr>collection := pre @ n' # post\<rparr>)"
proof -
  from assms(6) have d: "distinct (map oid (collection st))"
    by (simp add: uniqueIds_def)
  from updateOne_split [OF d assms(7), of t c] obtain pre post where
    s: "collection st = pre @ n # post"
    and u: "updateOne (oid n) t c (collection st) = pre @ n\<lparr>titre := t, contenu := c\<rparr> # post"
    by blast
  have f: "find (\<lambda>m. oid m = oid n) (collection st) = Some n"
    by (rule find_unique [OF d assms(7)])
  have fs: "field_string (body rq) ''titre'' = t" "field_string (body rq) ''contenu'' = c"
    by (simp_all add: field_string_def assms(3,4,5))
  have "dispatch e st rq =
      (\<lparr>status = 200, payload = MessageNote NoteModifieeAvecSucces (n\<lparr>titre := t, contenu := c\<rparr>)\<rparr>,
       st\<lparr>collection := pre @ n\<lparr>titre := t, contenu := c\<rparr> # post\<rparr>)"
    by (simp add: dispatch_put_notes_id [OF assms(1)] put_notes_id_def assms(2,8)
        Note_findByIdAndUpdate_def f fs u)
  with s show ?thesis
    by (intro exI [of _ pre] exI [of _ post] exI [of _ "n\<lparr>titre := t, contenu := c\<rparr>"]) simp
qed

theorem update_replaces_titre_and_contenu_only_witness:
  "dispatch someEnv threeNotes
     (req PUT [''notes'', ''000000000000000000000002''] []
        (JObj [(''titre'', JStr ''Algorithmique''), (''contenu'', JStr ''Tri fusion'')]))
     = (\<lparr>status = 200,
         payload = MessageNote NoteModifieeAvecSucces
           \<lparr>oid = 2, titre = ''Algorithmique'', contenu = ''Tri fusion'', dateAjout = 30\<rparr>\<rparr>,
        \<lparr>collection =
           [noteMaths,
            \<lparr>oid = 2, titre = ''Algorithmique'', contenu = ''Tri fusion'', dateAjout = 30\<rparr>,
            noteChimie],
         uploads = []\<rparr>)"
proof -
  let ?rq = "req PUT [''notes'', ''000000000000000000000002''] []
        (JObj [(''titre'', JStr ''Algorithmique''), (''contenu'', JStr ''Tri fusion'')])"
  have r: "isRoute PUT [Lit ''notes'', Param ''id''] ?rq [(''id'', ''000000000000000000000002'')]"
    by (simp add: eval_route)
  have v: "noteSchemaJoi (body ?rq) = None"
    by (simp add: req_def noteSchemaJoi_def)
  have b: "body ?rq = JObj [(''titre'', JStr ''Algorithmique''), (''contenu'', JStr ''Tri fusion'')]"
    by (simp add: req_def)
  have t: "map_of [(''titre'', JStr ''Algorithmique''), (''contenu'', JStr ''Tri fusion'')] ''titre''
      = Some (JStr ''Algorithmique'')"
    and c: "map_of [(''titre'', JStr ''Algorithmique''), (''contenu'', JStr ''Tri fusion'')] ''contenu''
      = Some (JStr ''Tri fusion'')"
    by simp_all
  have u: "uniqueIds threeNotes"
    by (simp add: uniqueIds_def threeNotes_def noteMaths_def noteAlgo_def noteChimie_def)
  have n: "noteAlgo \<in> set (collection threeNotes)"
    by (simp add: threeNotes_def)
  have k: "castObjectId ''000000000000000000000002'' = Some (oid noteAlgo)"
    by (simp add: castObjectId_def hexDigit_def noteAlgo_def)
  from update_replaces_titre_and_contenu_only [OF r v b t c u n k, of someEnv]
  obtain pre post where
    s: "collection threeNotes = pre @ noteAlgo # post"
    and d: "dispatch someEnv threeNotes ?rq =
          (\<lparr>status = 200, payload = MessageNote NoteModifieeAvecSucces
              (noteAlgo\<lparr>titre := ''Algorithmique'', contenu := ''Tri fusion''\<rparr>)\<rparr>,
           threeNotes\<lparr>collection := pre @ noteAlgo\<lparr>titre := ''Algorithmique'', contenu := ''Tri fusion''\<rparr> # post\<rparr>)"
    by blast
  have ne: "noteMaths \<noteq> noteAlgo" "noteChimie \<noteq> noteAlgo"
    by (simp_all add: noteMaths_def noteAlgo_def noteChimie_def)
  from s ne have "pre = [noteMaths] \<and> post = [noteChimie]"
    by (cases pre; cases "tl pre") (auto simp: threeNotes_def Cons_eq_append_conv)
  with d show ?thesis
    by (simp add: threeNotes_def noteAlgo_def)
qed

text \<open>
  C6. For a stored note, DELETE /notes/:id on its id succeeds, and a GET /notes/:id on the
  same id right after it is answered 404.
\<close>

theorem delete_then_get_is_404:
  assumes "uniqueIds st"
    and "n \<in> set (collection st)"
    and "castObjectId i = Some (oid n)"
    and "isRoute DELETE [Lit ''notes'', Param ''id''] rqd [(''id'', i)]"
    and "isRoute GET [Lit ''notes'', Param ''id''] rqg [(''id'', i)]"
  shows "fst (dispatch e st rqd) = \<lparr>status = 200, payload = MessageOnly NoteSupprimeeAvecSucces\<rparr>
    \<and> dispatch e' (snd (dispatch e st rqd)) rqg
        = (\<lparr>status = 404, payload = Erreur NoteNonTrouvee\<rparr>, snd (dispatch e st rqd))"
proof -
  from assms(1) have d: "distinct (map oid (collection st))"
    by (simp add: uniqueIds_def)
  have f: "find (\<lambda>m. oid m = oid n) (collection st) = Some n"
    by (rule find_unique [OF d assms(2)])
  have del: "dispatch e st rqd =
      (\<lparr>status = 200, payload = MessageOnly NoteSupprimeeAvecSucces\<rparr>,
       st\<lparr>collection := deleteOne (oid n) (collection st)\<rparr>)"
    by (simp add: dispatch_delete_notes_id [OF assms(4)] delete_notes_id_def
        Note_findByIdAndDelete_def assms(3) f)
  have gone: "find (\<lambda>m. oid m = oid n) (deleteOne (oid n) (collection st)) = None"
    using deleteOne_removes [OF d, of "oid n"] by (simp add: find_None_iff_oid)
  have "dispatch e' (st\<lparr>collection := deleteOne (oid n) (collection st)\<rparr>) rqg
      = (\<lparr>status = 404, payload = Erreur NoteNonTrouvee\<rparr>,
         st\<lparr>collection := deleteOne (oid n) (collection st)\<rparr>)"
    by (simp add: dispatch_get_notes_id [OF assms(5)] get_notes_id_def Note_findById_def
        assms(3) gone)
  with del show ?thesis by simp
qed

theorem delete_then_get_is_404_witness:
  "dispatch someEnv threeNotes (req DELETE [''notes'', ''000000000000000000000002''] [] (JObj []))
     = (\<lparr>status = 200, payload = MessageOnly NoteSupprimeeAvecSucces\<rparr>,
        \<lparr>collection = [noteMaths, noteChimie], uploads = []\<rparr>)
   \<and> dispatch someEnv \<lparr>collection = [noteMaths, noteChimie], uploads = []\<rparr>
       (req GET [''notes'', ''000000000000000000000002''] [] (JObj []))
     = (\<lparr>status = 404, payload = Erreur NoteNonTrouvee\<rparr>,
        \<lparr>collection = [noteMaths, noteChimie], uploads = []\<rparr>)"
proof -
  let ?i = "''000000000000000000000002''"
  have rd: "isRoute DELETE [Lit ''notes'', Param ''id''] (req DELETE [''notes'', ?i] [] (JObj [])) [(''id'', ?i)]"
    and rg: "isRoute GET [Lit ''notes'', Param ''id''] (req GET [''notes'', ?i] [] (JObj [])) [(''id'', ?i)]"
    by (simp_all add: eval_route)
  have u: "uniqueIds threeNotes"
    by (simp add: uniqueIds_def threeNotes_def noteMaths_def noteAlgo_def noteChimie_def)
  have n: "noteAlgo \<in> set (collection threeNotes)"
    by (simp add: threeNotes_def)
  have k: "castObjectId ?i = Some (oid noteAlgo)"
    by (simp add: castObjectId_def hexDigit_def noteAlgo_def)
  have s: "snd (dispatch someEnv threeNotes (req DELETE [''notes'', ?i] [] (JObj [])))
      = \<lparr>collection = [noteMaths, noteChimie], uploads = []\<rparr>"
    by (simp add: dispatch_delete_notes_id [OF rd] delete_notes_id_def Note_findByIdAndDelete_def
        k threeNotes_def noteMaths_def noteAlgo_def noteChimie_def)
  from delete_then_get_is_404 [OF u n k rd rg, of someEnv someEnv] s
  show ?thesis by (simp add: prod_eq_iff)
qed

text \<open>
  C7, as stated: an upload with a file present is answered 201 and the file is stored.
  The route takes a file under the field \<^verbatim>\<open>fichier\<close> only: with the file under the field
  \<^verbatim>\<open>photo\<close> multer passes an error to the error middleware, which answers 500, and
  nothing is stored.
\<close>

theorem file_under_another_field_is_answered_500:
  "formFiles (Multipart [\<lparr>fieldname = ''photo'', originalname = ''cours.pdf''\<rparr>])
     = [\<lparr>fieldname = ''photo'', originalname = ''cours.pdf''\<rparr>]
   \<and> handle someEnv threeNotes
       ((req POST [''upload''] [] (JObj []))
          \<lparr>content := Multipart [\<lparr>fieldname = ''photo'', originalname = ''cours.pdf''\<rparr>]\<rparr>)
     = (\<lparr>status = 500, payload = ErreurDetails ErreurServeur (UnexpectedField ''photo'')\<rparr>,
        threeNotes)"
proof -
  let ?rq = "(req POST [''upload''] [] (JObj []))
          \<lparr>content := Multipart [\<lparr>fieldname = ''photo'', originalname = ''cours.pdf''\<rparr>]\<rparr>"
  have p: "express_json ?rq = Inr ?rq"
    by (simp add: express_json_def)
  have r: "isRoute POST [Lit ''upload''] ?rq []"
    by (simp add: eval_route)
  have u: "post_upload someEnv threeNotes ?rq = (NextErr (UnexpectedField ''photo''), threeNotes)"
    by (simp add: post_upload_def upload_single_def formFiles_def)
  show ?thesis
    unfolding handle_handed_on [OF p] dispatch_post_upload [OF r] u
    by (simp add: formFiles_def error_middleware_def)
qed

text \<open>
  C7, amended: POST /upload on a request without a body or with a multipart form, the
  directory \<^verbatim>\<open>uploads/\<close> being there. With one file, under the field \<^verbatim>\<open>fichier\<close>, the
  file is stored under the decimal numeral of the time stamp in milliseconds, a hyphen
  and the original name, and the answer is 201 with the URL made of the protocol and the
  host of the request, \<^verbatim>\<open>/uploads/\<close> and that name. Without a file the answer is 400. With
  a file under another field, or with a second file, the error middleware answers 500
  and no file of the request stays stored.
\<close>

theorem upload_answers:
  assumes "isRoute POST [Lit ''upload''] rq []"
    and "host rq = Some h"
    and "content rq = Multipart fs \<or> content rq = NoContent \<and> fs = []"
    and "uploadsDir e"
  shows "isDecimalOf (numberToString (now e)) (now e)
    \<and> handle e st rq =
     (case filter (\<lambda>f. originalname f \<noteq> []) fs of
        [] \<Rightarrow> (\<lparr>status = 400, payload = Erreur AucunFichierEnvoye\<rparr>, st)
      | [f] \<Rightarrow>
          if fieldname f = ''fichier'' then
            (\<lparr>status = 201,
              payload = MessageUrl FichierUploadeAvecSucces
                (protocol rq @ ''://'' @ h @ ''/uploads/''
                   @ numberToString (now e) @ ''-'' @ originalname f)\<rparr>,
             st\<lparr>uploads :=
                  List.insert (numberToString (now e) @ ''-'' @ originalname f) (uploads st)\<rparr>)
          else
            (\<lparr>status = 500,
              payload = ErreurDetails ErreurServeur (UnexpectedField (fieldname f))\<rparr>, st)
      | f # g # fs' \<Rightarrow>
          if fieldname f = ''fichier'' then
            (\<lparr>status = 500,
              payload = ErreurDetails ErreurServeur (UnexpectedField (fieldname g))\<rparr>,
             st\<lparr>uploads :=
                  removeAll (numberToString (now e) @ ''-'' @ originalname f) (uploads st)\<rparr>)
          else
            (\<lparr>status = 500,
              payload = ErreurDetails ErreurServeur (UnexpectedField (fieldname f))\<rparr>, st))"
proof -
  have p: "express_json rq = Inr rq"
    using assms(3) by (auto simp: express_json_def)
  have b: "content rq \<noteq> BadForm"
    using assms(3) by auto
  have f: "formFiles (content rq) = filter (\<lambda>f. originalname f \<noteq> []) fs"
    using assms(3) by (auto simp: formFiles_def)
  have "handle e st rq =
     (case post_upload e st rq of
        (Responded r, st') \<Rightarrow> (r, st')
      | (NextErr err, st') \<Rightarrow> (error_middleware err, st'))"
    unfolding handle_handed_on [OF p] by (rule dispatch_post_upload [OF assms(1)])
  then show ?thesis
    by (simp add: isDecimalOf_numberToString post_upload_def
        upload_single_answers [OF assms(4) b] f storage_filename_def assms(2)
        error_middleware_def split: list.splits)
qed

theorem upload_answers_witness:
  "handle someEnv threeNotes
     ((req POST [''upload''] [] (JObj []))
        \<lparr>content := Multipart [\<lparr>fieldname = ''fichier'', originalname = ''cours.pdf''\<rparr>]\<rparr>)
     = (\<lparr>status = 201,
         payload = MessageUrl FichierUploadeAvecSucces
           ''http://localhost:3000/uploads/1700000000000-cours.pdf''\<rparr>,
        \<lparr>collection = [noteMaths, noteAlgo, noteChimie],
         uploads = [''1700000000000-cours.pdf'']\<rparr>)
   \<and> handle someEnv threeNotes ((req POST [''upload''] [] (JObj []))\<lparr>content := NoContent\<rparr>)
     = (\<lparr>status = 400, payload = Erreur AucunFichierEnvoye\<rparr>, threeNotes)
   \<and> isDecimalOf ''1700000000000'' 1700000000000"
proof -
  let ?f = "\<lparr>fieldname = ''fichier'', originalname = ''cours.pdf''\<rparr>"
  let ?rq1 = "(req POST [''upload''] [] (JObj []))\<lparr>content := Multipart [?f]\<rparr>"
  let ?rq2 = "(req POST [''upload''] [] (JObj []))\<lparr>content := NoContent\<rparr>"
  have r: "isRoute POST [Lit ''upload''] ?rq1 []" "isRoute POST [Lit ''upload''] ?rq2 []"
    by (simp_all add: eval_route)
  have h: "host ?rq1 = Some ''localhost:3000''" "host ?rq2 = Some ''localhost:3000''"
    by (simp_all add: req_def)
  have c: "content ?rq1 = Multipart [?f] \<or> content ?rq1 = NoContent \<and> [?f] = []"
    "content ?rq2 = Multipart [] \<or> content ?rq2 = NoContent \<and> [] = ([] :: file_part list)"
    by simp_all
  have d: "uploadsDir someEnv"
    by (simp add: someEnv_def)
  have n: "numberToString 1700000000000 = ''1700000000000''"
    by (simp add: numberToString.simps digitChar_def)
  have m: "now someEnv = 1700000000000"
    by (simp add: someEnv_def)
  show ?thesis
    using upload_answers [OF r(1) h(1) c(1) d, of threeNotes]
      upload_answers [OF r(2) h(2) c(2) d, of threeNotes]
    by (simp add: req_def threeNotes_def m n)
qed

text \<open>
  C8, as stated: POST /notes with the body \<^verbatim>\<open>{title: "Maths", content: "Calcul integral"}\<close>
  is answered 201. The schema asks for \<^verbatim>\<open>titre\<close> and \<^verbatim>\<open>contenu\<close>: the request is
  answered 400 and nothing is stored.
\<close>

theorem create_with_title_and_content_is_refused:
  "dispatch someEnv threeNotes
     (req POST [''notes''] [] (JObj [(''title'', JStr ''Maths''), (''content'', JStr ''Calcul integral'')]))
     = (\<lparr>status = 400, payload = ErreurValidation (AnyRequired ''titre'')\<rparr>, threeNotes)
   \<and> status (fst (dispatch someEnv threeNotes
     (req POST [''notes''] [] (JObj [(''title'', JStr ''Maths''), (''content'', JStr ''Calcul integral'')]))))
     \<noteq> 201"
proof -
  have r: "isRoute POST [Lit ''notes''] (req POST [''notes''] [] b) []" for b
    by (simp add: eval_route)
  have v: "noteSchemaJoi (body (req POST [''notes''] []
      (JObj [(''title'', JStr ''Maths''), (''content'', JStr ''Calcul integral'')])))
      = Some (AnyRequired ''titre'')"
    by (simp add: noteSchemaJoi_def req_def)
  show ?thesis
    unfolding dispatch_post_notes [OF r] post_notes_invalid [OF v] by simp
qed

text \<open>
  C8, amended: POST /notes with the body \<^verbatim>\<open>{titre: "Maths", contenu: "Calcul integral"}\<close>
  is answered 201 with the stored note: the generated \<^verbatim>\<open>_id\<close>, the same \<^verbatim>\<open>titre\<close> and
  \<^verbatim>\<open>contenu\<close>, and the time of the request as \<^verbatim>\<open>dateAjout\<close>; the note is added at the
  end of the collection. The generated \<^verbatim>\<open>_id\<close> is one the collection does not hold.
\<close>

theorem create_maths:
  assumes "isRoute POST [Lit ''notes''] rq []"
    and "body rq = JObj kvs"
    and "map_of kvs ''titre'' = Some (JStr ''Maths'')"
    and "map_of kvs ''contenu'' = Some (JStr ''Calcul integral'')"
    and "set (map fst kvs) \<subseteq> {''titre'', ''contenu''}"
    and "newId e \<notin> oid ` set (collection st)"
  shows "dispatch e st rq =
     (\<lparr>status = 201,
       payload = NoteDoc
         \<lparr>oid = newId e, titre = ''Maths'', contenu = ''Calcul integral'', dateAjout = now e\<rparr>\<rparr>,
      st\<lparr>collection := collection st @
         [\<lparr>oid = newId e, titre = ''Maths'', contenu = ''Calcul integral'', dateAjout = now e\<rparr>]\<rparr>)"
proof -
  have v: "noteSchemaJoi (body rq) = None"
    unfolding assms(2) noteSchemaJoi_JObj_None
    using assms(3,4,5) by simp
  have fs: "field_string (body rq) ''titre'' = ''Maths''"
    "field_string (body rq) ''contenu'' = ''Calcul integral''"
    by (simp_all add: field_string_def assms(2,3,4))
  from assms(6) show ?thesis
    by (simp add: dispatch_post_notes [OF assms(1)] post_notes_def v fs Note_save_def Let_def)
qed

theorem create_maths_witness:
  "dispatch someEnv threeNotes
     (req POST [''notes''] [] (JObj [(''titre'', JStr ''Maths''), (''contenu'', JStr ''Calcul integral'')]))
     = (\<lparr>status = 201,
         payload = NoteDoc
           \<lparr>oid = 4, titre = ''Maths'', contenu = ''Calcul integral'', dateAjout = 1700000000000\<rparr>\<rparr>,
        \<lparr>collection = [noteMaths, noteAlgo, noteChimie,
           \<lparr>oid = 4, titre = ''Maths'', contenu = ''Calcul integral'', dateAjout = 1700000000000\<rparr>],
         uploads = []\<rparr>)"
proof -
  let ?kvs = "[(''titre'', JStr ''Maths''), (''contenu'', JStr ''Calcul integral'')]"
  have r: "isRoute POST [Lit ''notes''] (req POST [''notes''] [] (JObj ?kvs)) []"
    by (simp add: eval_route)
  have b: "body (req POST [''notes''] [] (JObj ?kvs)) = JObj ?kvs"
    by (simp add: req_def)
  have t: "map_of ?kvs ''titre'' = Some (JStr ''Maths'')"
    and c: "map_of ?kvs ''contenu'' = Some (JStr ''Calcul integral'')"
    and k: "set (map fst ?kvs) \<subseteq> {''titre'', ''contenu''}"
    by simp_all
  have i: "newId someEnv \<notin> oid ` set (collection threeNotes)"
    by (simp add: someEnv_def threeNotes_def noteMaths_def noteAlgo_def noteChimie_def)
  from create_maths [OF r b t c k i] show ?thesis
    by (simp add: someEnv_def threeNotes_def)
qed

text \<open>
  C9. Without a \<^verbatim>\<open>sortBy\<close> parameter the paginated listing sorts on \<^verbatim>\<open>date\<close>, which is
  not a field of a note (the time stamp of the schema is \<^verbatim>\<open>dateAjout\<close>): the sort leaves
  every list as it is, and the listing is the page of the collection in its natural
  order, whatever the time stamps of the notes.
\<close>

theorem default_sort_is_not_on_a_field:
  assumes "map_of (query rq) ''sortBy'' = None"
  shows "sortBy rq = ''date''
    \<and> ''date'' \<notin> set schemaPaths
    \<and> Query_sort (sortBy rq) (sortOrder rq) ns = ns
    \<and> (0 \<le> skip rq \<longrightarrow>
        get_notes_paginated st rq =
          (Responded
             \<lparr>status = 200,
              payload = Page (page rq)
                \<lceil>real (length (collection st)) / real_of_int (limit rq)\<rceil>
                (length (collection st))
                (take (nat \<bar>limit rq\<bar>) (drop (nat (skip rq)) (collection st)))\<rparr>,
           st))"
proof -
  have s: "sortBy rq = ''date''"
    by (simp add: sortBy_def assms)
  have d: "''date'' \<notin> set schemaPaths"
    by (simp add: schemaPaths_def)
  have q: "Query_sort (sortBy rq) (sortOrder rq) xs = xs" for xs
    unfolding s by (rule Query_sort_other [OF d])
  show ?thesis
    by (simp add: s d q [unfolded s] get_notes_paginated_def Let_def Note_countDocuments_def
        Note_find_def)
qed

theorem default_sort_is_not_on_a_field_witness:
  "map dateAjout (collection threeNotes) = [20, 30, 10]
   \<and> get_notes_paginated threeNotes (req GET [''notes''] [] (JObj []))
     = (Responded \<lparr>status = 200, payload = Page 1 1 3 [noteMaths, noteAlgo, noteChimie]\<rparr>,
        threeNotes)"
proof -
  let ?rq = "req GET [''notes''] [] (JObj [])"
  have a: "map_of (query ?rq) ''sortBy'' = None"
    by (simp add: req_def)
  have v: "page ?rq = 1" "limit ?rq = 10" "skip ?rq = 0"
    by (simp_all add: page_def limit_def skip_def parseInt_def orDefault_def req_def)
  from default_sort_is_not_on_a_field [OF a, of "[]" threeNotes] show ?thesis
    by (simp add: v threeNotes_def noteMaths_def noteAlgo_def noteChimie_def)
qed

text \<open>
  C10, as stated: every create or update whose JSON body is not made of exactly the keys
  \<^verbatim>\<open>titre\<close> and \<^verbatim>\<open>contenu\<close> is answered 400. The body \<^verbatim>\<open>null\<close> is not made of them
  and is refused by the JSON parser, before the validation: the error middleware answers
  500.
\<close>

theorem null_body_is_answered_500:
  "\<not> exactKeys JNull
   \<and> handle someEnv threeNotes (req POST [''notes''] [] JNull)
     = (\<lparr>status = 500, payload = ErreurDetails ErreurServeur EntityParseFailed\<rparr>, threeNotes)"
proof -
  have "express_json (req POST [''notes''] [] JNull) = Inl EntityParseFailed"
    by (simp add: express_json_def req_def bodyLimit_def)
  from handle_refused [OF this] show ?thesis
    by (simp add: error_middleware_def exactKeys_def)
qed

text \<open>
  C10, amended: a create (POST /notes) or update (PUT /notes/:id) whose body is a JSON
  object or array of at most 100kb that is not made of exactly the keys \<^verbatim>\<open>titre\<close> and
  \<^verbatim>\<open>contenu\<close> (the keys \<^verbatim>\<open>title\<close> and \<^verbatim>\<open>content\<close>, or one key more) fails the
  validation and is answered 400; a JSON body over 100kb, or one that is neither an
  object nor an array, is answered 500 by the error middleware. The state stays as it is
  in every case.
\<close>

theorem other_keys_are_refused:
  assumes "isRoute POST [Lit ''notes''] rq []
      \<or> isRoute PUT [Lit ''notes'', Param ''id''] rq [(''id'', i)]"
    and "content rq = JsonText v x"
    and "\<not> exactKeys v"
  shows "\<exists>r. handle e st rq = (r, st)
      \<and> (if 102400 < jsonBytes v + x then
            r = \<lparr>status = 500, payload = ErreurDetails ErreurServeur EntityTooLarge\<rparr>
          else
            (case v of
               JObj kvs \<Rightarrow>
                 (\<exists>err. noteSchemaJoi v = Some err
                    \<and> r = \<lparr>status = 400, payload = ErreurValidation err\<rparr>)
             | JArr vs \<Rightarrow> r = \<lparr>status = 400, payload = ErreurValidation ObjectBase\<rparr>
             | _ \<Rightarrow> r = \<lparr>status = 500, payload = ErreurDetails ErreurServeur EntityParseFailed\<rparr>))"
proof (cases "express_json rq")
  case (Inl err)
  from handle_refused [OF this, of e st] Inl show ?thesis
    by (cases v)
      (auto simp: express_json_JsonText [OF assms(2)] bodyLimit_def error_middleware_def
        split: if_splits)
next
  case (Inr rq')
  then have a: "\<not> 102400 < jsonBytes v + x" "objectOrArray v" and rq': "rq' = rq\<lparr>body := v\<rparr>"
    by (auto simp: express_json_JsonText [OF assms(2)] bodyLimit_def split: if_splits)
  have r: "isRoute POST [Lit ''notes''] rq' []
      \<or> isRoute PUT [Lit ''notes'', Param ''id''] rq' [(''id'', i)]"
    using assms(1) by (simp add: express_json_isRoute [OF Inr])
  from assms(3) noteSchemaJoi_exactKeys [of v]
  obtain err where v: "noteSchemaJoi v = Some err"
    by (cases "noteSchemaJoi v") auto
  then have "noteSchemaJoi (body rq') = Some err"
    by (simp add: rq')
  from dispatch_invalid [OF r this, of e st] v a show ?thesis
    by (cases v) (auto simp: handle_handed_on [OF Inr] noteSchemaJoi_def)
qed

theorem other_keys_are_refused_witness:
  "handle someEnv threeNotes
     (req POST [''notes''] [] (JObj [(''title'', JStr ''Maths''), (''content'', JStr ''Calcul integral'')]))
     = (\<lparr>status = 400, payload = ErreurValidation (AnyRequired ''titre'')\<rparr>, threeNotes)
   \<and> handle someEnv threeNotes
     (req PUT [''notes'', ''000000000000000000000002''] []
        (JObj [(''titre'', JStr ''Algo''), (''contenu'', JStr ''Tri fusion''), (''auteur'', JStr ''Ada'')]))
     = (\<lparr>status = 400, payload = ErreurValidation (ObjectUnknown ''auteur'')\<rparr>, threeNotes)"
proof -
  let ?b1 = "JObj [(''title'', JStr ''Maths''), (''content'', JStr ''Calcul integral'')]"
  let ?b2 = "JObj [(''titre'', JStr ''Algo''), (''contenu'', JStr ''Tri fusion''), (''auteur'', JStr ''Ada'')]"
  have r1: "isRoute POST [Lit ''notes''] (req POST [''notes''] [] ?b1) []
      \<or> isRoute PUT [Lit ''notes'', Param ''id''] (req POST [''notes''] [] ?b1) [(''id'', i)]" for i
    by (simp add: eval_route)
  have r2: "isRoute POST [Lit ''notes''] (req PUT [''notes'', ''000000000000000000000002''] [] ?b2) []
      \<or> isRoute PUT [Lit ''notes'', Param ''id'']
          (req PUT [''notes'', ''000000000000000000000002''] [] ?b2)
          [(''id'', ''000000000000000000000002'')]"
    by (simp add: eval_route)
  have c: "content (req m p q b) = JsonText b 0" for m p q b
    by (simp add: req_def)
  have k: "\<not> exactKeys ?b1" "\<not> exactKeys ?b2"
    by (simp_all add: exactKeys_keys)
  have v: "noteSchemaJoi ?b1 = Some (AnyRequired ''titre'')"
    "noteSchemaJoi ?b2 = Some (ObjectUnknown ''auteur'')"
    by (simp_all add: noteSchemaJoi_def)
  from other_keys_are_refused [OF r1 c k(1), of someEnv threeNotes]
    other_keys_are_refused [OF r2 c k(2), of someEnv threeNotes]
  show ?thesis unfolding v by auto
qed

end
